theory Spec2Isabelle
  imports Main
begin

section \<open>Data model\<close>

text \<open>
  The tables of the application, as the migrations and the route handlers use them.
  Field names carry a short prefix for their table, since several tables and request
  bodies share the names \<open>equipmentId\<close>, \<open>quantity\<close>, \<open>description\<close> and \<open>status\<close>.
  Primary keys are text; a table with a primary key is a partial map from keys to rows.
  Columns no handler below reads or writes by name (\<open>imageUrl\<close>, \<open>createdAt\<close>,
  \<open>updatedAt\<close>) are left out. The handlers compute with unbounded numbers and never
  test a range; what a column can hold is checked by the ORM operations below, which
  refuse a value outside it.
\<close>

type_synonym id = string

record Equipments =
  eq_name :: string
  eq_category :: string
  eq_stock :: int

record Events =
  ev_title :: string
  ev_description :: string
  ev_date :: int
  ev_location :: string
  ev_status :: string
  ev_reportGenerated :: bool

text \<open>
  A row of \<open>EquipmentEvent\<close>. Its own generated key is never read; the migration puts
  a unique index on the pair (\<open>equipmentId\<close>, \<open>eventId\<close>) and lets both foreign keys
  cascade on delete.
\<close>

record EquipmentEvent =
  ee_equipmentId :: id
  ee_eventId :: id
  ee_quantity :: int

datatype RepairStatus = pending | in_progress | completed

record DamagedEquipment =
  de_equipmentId :: id
  de_quantity :: int
  de_description :: "string option"
  de_repairStatus :: RepairStatus
  de_reportedAt :: int
  de_repairedAt :: "int option"

record db =
  equipments :: "id \<rightharpoonup> Equipments"
  events :: "id \<rightharpoonup> Events"
  equipmentEvent :: "EquipmentEvent list"
  damagedEquipment :: "id \<rightharpoonup> DamagedEquipment"

text \<open>
  What a handler can throw: a schema violation, a known request error of the ORM with
  its code (\<open>P2002\<close> unique constraint, \<open>P2003\<close> foreign key, \<open>P2025\<close> record not
  found), or a plain \<open>Error\<close> with its message.
\<close>

datatype error = ZodError | PrismaClientKnownRequestError string | Error string

section \<open>What the columns hold\<close>

text \<open>
  \<open>stock\<close> and \<open>quantity\<close> are \<open>INTEGER\<close> columns: 32-bit signed. A value or a result
  outside the range is refused with the known request error \<open>P2020\<close>.
\<close>

definition int4 :: "int \<Rightarrow> bool" where
  "int4 x \<longleftrightarrow> - 2147483648 \<le> x \<and> x \<le> 2147483647"

definition out_of_range :: error where
  "out_of_range = PrismaClientKnownRequestError ''P2020''"

text \<open>
  A \<open>TEXT\<close> value or key cannot contain the character with code 0. A query that carries
  one fails with an error that is not a known request error.
\<close>

definition text_ok :: "string \<Rightarrow> bool" where
  "text_ok s \<longleftrightarrow> CHR 0x00 \<notin> set s"

definition invalid_text :: error where
  "invalid_text = Error ''invalid byte sequence for encoding UTF8: 0x00''"

text \<open>
  A \<open>DateTime\<close> travels as an ISO string with a four-digit year, so only the instants of
  the years 0 to 9999 are accepted; instants are milliseconds since the epoch. Any other
  date makes the query fail with an error that is not a known request error.
\<close>

definition timestamp_ok :: "int \<Rightarrow> bool" where
  "timestamp_ok t \<longleftrightarrow> - 62167219200000 \<le> t \<and> t \<le> 253402300799999"

definition invalid_date :: error where
  "invalid_date = Error ''Invalid value for argument date''"

definition text_option_ok :: "string option \<Rightarrow> bool" where
  "text_option_ok s = (case s of None \<Rightarrow> True | Some t \<Rightarrow> text_ok t)"

definition int4_option :: "int option \<Rightarrow> bool" where
  "int4_option q = (case q of None \<Rightarrow> True | Some n \<Rightarrow> int4 n)"

section \<open>ORM operations\<close>

text \<open>\<open>equipments.findUnique\<close> with a key that comes from the request.\<close>

definition equipments_findUnique :: "id \<Rightarrow> db \<Rightarrow> error + Equipments option" where
  "equipments_findUnique i d = (if text_ok i then Inr (equipments d i) else Inl invalid_text)"

text \<open>
  \<open>equipments.update\<close> with \<open>stock: { increment: n }\<close>. The key comes from a stored row
  or from an item that has been looked up; the row must exist and the sum must fit.
\<close>

definition equipments_update_increment :: "id \<Rightarrow> int \<Rightarrow> db \<Rightarrow> error + db" where
  "equipments_update_increment i n d =
     (case equipments d i of
        None \<Rightarrow> Inl (PrismaClientKnownRequestError ''P2025'')
      | Some e \<Rightarrow>
          if int4 (eq_stock e + n)
          then Inr (d\<lparr>equipments := (equipments d)(i \<mapsto> e\<lparr>eq_stock := eq_stock e + n\<rparr>)\<rparr>)
          else Inl out_of_range)"

text \<open>\<open>equipments.update\<close> with \<open>stock: { decrement: n }\<close>.\<close>

definition equipments_update_decrement :: "id \<Rightarrow> int \<Rightarrow> db \<Rightarrow> error + db" where
  "equipments_update_decrement i n d =
     (case equipments d i of
        None \<Rightarrow> Inl (PrismaClientKnownRequestError ''P2025'')
      | Some e \<Rightarrow>
          if int4 (eq_stock e - n)
          then Inr (d\<lparr>equipments := (equipments d)(i \<mapsto> e\<lparr>eq_stock := eq_stock e - n\<rparr>)\<rparr>)
          else Inl out_of_range)"

text \<open>\<open>damagedEquipment.findUnique\<close> with the key of the URL.\<close>

definition damagedEquipment_findUnique :: "id \<Rightarrow> db \<Rightarrow> error + DamagedEquipment option" where
  "damagedEquipment_findUnique i d =
     (if text_ok i then Inr (damagedEquipment d i) else Inl invalid_text)"

text \<open>
  \<open>damagedEquipment.create\<close>: the key is generated by the ORM and is an input here. The
  values must fit their columns; a key already in use violates the primary key, a missing
  equipment the foreign key.
\<close>

definition damagedEquipment_create :: "id \<Rightarrow> DamagedEquipment \<Rightarrow> db \<Rightarrow> error + db" where
  "damagedEquipment_create i r d =
     (if \<not> int4 (de_quantity r) then Inl out_of_range
      else if \<not> text_option_ok (de_description r) then Inl invalid_text
      else if damagedEquipment d i \<noteq> None then Inl (PrismaClientKnownRequestError ''P2002'')
      else if equipments d (de_equipmentId r) = None
        then Inl (PrismaClientKnownRequestError ''P2003'')
      else Inr (d\<lparr>damagedEquipment := (damagedEquipment d)(i \<mapsto> r)\<rparr>))"

section \<open>Error handling of the damaged-equipment routes\<close>

text \<open>
  \<open>handlePrismaError\<close> answers with the error's code for a known request error and with
  \<open>null\<close> for anything else; the routes turn the code \<open>P2002\<close> into 409, any other
  code into 400, and \<open>null\<close> into 500.
\<close>

definition handlePrismaError :: "error \<Rightarrow> string option" where
  "handlePrismaError err =
     (case err of PrismaClientKnownRequestError c \<Rightarrow> Some c | _ \<Rightarrow> None)"

definition damaged_catch :: "error \<Rightarrow> nat" where
  "damaged_catch err =
     (case handlePrismaError err of
        Some c \<Rightarrow> (if c = ''P2002'' then 409 else 400)
      | None \<Rightarrow> 500)"

section \<open>POST /api/damaged-equipments\<close>

record DamagedEquipmentBody =
  rb_equipmentId :: string
  rb_quantity :: int
  rb_description :: "string option"

text \<open>\<open>DamagedEquipmentSchema\<close>: a non-empty equipment id and an integer quantity of at least 1.\<close>

definition DamagedEquipmentSchema_success :: "DamagedEquipmentBody \<Rightarrow> bool" where
  "DamagedEquipmentSchema_success b \<longleftrightarrow> 1 \<le> length (rb_equipmentId b) \<and> 1 \<le> rb_quantity b"

text \<open>\<open>parsed.data.description || null\<close>: an absent or empty description is stored as null.\<close>

definition description_or_null :: "string option \<Rightarrow> string option" where
  "description_or_null s = (case s of None \<Rightarrow> None | Some t \<Rightarrow> if t = [] then None else Some t)"

text \<open>
  The handler: status code and database afterwards. \<open>newId\<close> is the generated key,
  \<open>now\<close> the clock reading behind the default of \<open>reportedAt\<close>.
\<close>

definition damaged_equipments_POST ::
    "db \<Rightarrow> id \<Rightarrow> int \<Rightarrow> DamagedEquipmentBody \<Rightarrow> nat \<times> db" where
  "damaged_equipments_POST d newId now b =
     (if \<not> DamagedEquipmentSchema_success b then (400, d)
      else case equipments_findUnique (rb_equipmentId b) d of
        Inl err \<Rightarrow> (damaged_catch err, d)
      | Inr None \<Rightarrow> (404, d)
      | Inr (Some equipment) \<Rightarrow>
          if eq_stock equipment < rb_quantity b then (400, d)
          else (case damagedEquipment_create newId
                   \<lparr>de_equipmentId = rb_equipmentId b, de_quantity = rb_quantity b,
                    de_description = description_or_null (rb_description b),
                    de_repairStatus = pending, de_reportedAt = now, de_repairedAt = None\<rparr> d of
                  Inl err \<Rightarrow> (damaged_catch err, d)
                | Inr d' \<Rightarrow> (201, d')))"

section \<open>PUT /api/damaged-equipments/[id]\<close>

record UpdateDamagedEquipmentBody =
  ub_quantity :: "int option"
  ub_description :: "string option"
  ub_repairStatus :: "string option"

text \<open>The enum \<open>["pending", "in_progress", "completed"]\<close> of the update schema.\<close>

definition RepairStatus_enum :: "string \<Rightarrow> RepairStatus option" where
  "RepairStatus_enum s =
     (if s = ''pending'' then Some pending
      else if s = ''in_progress'' then Some in_progress
      else if s = ''completed'' then Some completed
      else None)"

definition UpdateDamagedEquipmentSchema_success :: "UpdateDamagedEquipmentBody \<Rightarrow> bool" where
  "UpdateDamagedEquipmentSchema_success b \<longleftrightarrow>
     (case ub_quantity b of None \<Rightarrow> True | Some q \<Rightarrow> 1 \<le> q) \<and>
     (case ub_repairStatus b of None \<Rightarrow> True | Some s \<Rightarrow> RepairStatus_enum s \<noteq> None)"

text \<open>
  \<open>updateData\<close> applied to the existing row: each field the body supplies replaces the
  stored one, and \<open>repairedAt\<close> is set when the new status is \<open>completed\<close>.
\<close>

definition updateData :: "UpdateDamagedEquipmentBody \<Rightarrow> int \<Rightarrow> DamagedEquipment \<Rightarrow> DamagedEquipment" where
  "updateData b now r =
     (let r1 = (case ub_quantity b of None \<Rightarrow> r | Some q \<Rightarrow> r\<lparr>de_quantity := q\<rparr>);
          r2 = (case ub_description b of None \<Rightarrow> r1 | Some s \<Rightarrow> r1\<lparr>de_description := Some s\<rparr>)
      in case ub_repairStatus b of
           None \<Rightarrow> r2
         | Some s \<Rightarrow>
             (case RepairStatus_enum s of
                None \<Rightarrow> r2
              | Some st \<Rightarrow>
                  if st = completed
                  then r2\<lparr>de_repairStatus := st, de_repairedAt := Some now\<rparr>
                  else r2\<lparr>de_repairStatus := st\<rparr>))"

text \<open>
  \<open>damagedEquipment.update\<close> with \<open>data: updateData\<close>: the values the body supplies must
  fit their columns, and the row must exist.
\<close>

definition damagedEquipment_update_row ::
    "id \<Rightarrow> UpdateDamagedEquipmentBody \<Rightarrow> int \<Rightarrow> db \<Rightarrow> error + db" where
  "damagedEquipment_update_row i b now d =
     (if \<not> int4_option (ub_quantity b) then Inl out_of_range
      else if \<not> text_option_ok (ub_description b) then Inl invalid_text
      else case damagedEquipment d i of
        None \<Rightarrow> Inl (PrismaClientKnownRequestError ''P2025'')
      | Some r \<Rightarrow> Inr (d\<lparr>damagedEquipment := (damagedEquipment d)(i \<mapsto> updateData b now r)\<rparr>))"

text \<open>
  The handler. The stock update runs before the row update and outside any
  transaction; it reads the quantity of the row as it was found. When the row update
  throws, the stock update has already been committed and stays.
\<close>

definition damaged_equipments_id_PUT ::
    "db \<Rightarrow> id \<Rightarrow> int \<Rightarrow> UpdateDamagedEquipmentBody \<Rightarrow> nat \<times> db" where
  "damaged_equipments_id_PUT d i now b =
     (if \<not> UpdateDamagedEquipmentSchema_success b then (400, d)
      else case damagedEquipment_findUnique i d of
        Inl err \<Rightarrow> (damaged_catch err, d)
      | Inr None \<Rightarrow> (404, d)
      | Inr (Some existing) \<Rightarrow>
          (case (if ub_repairStatus b = Some ''completed''
                 then equipments_update_increment (de_equipmentId existing) (de_quantity existing) d
                 else Inr d) of
             Inl err \<Rightarrow> (damaged_catch err, d)
           | Inr d1 \<Rightarrow>
               (case damagedEquipment_update_row i b now d1 of
                  Inl err \<Rightarrow> (damaged_catch err, d1)
                | Inr d2 \<Rightarrow> (200, d2))))"

section \<open>Event routes: schema and ORM operations\<close>

record EquipmentItem =
  it_equipmentId :: string
  it_quantity :: int

text \<open>
  The JSON body of the event routes. \<open>eb_date\<close> holds what \<open>Date.parse\<close> makes of the
  submitted string, \<open>None\<close> standing for \<open>NaN\<close>; the handlers use the string in no other way.
\<close>

record EventBody =
  eb_title :: string
  eb_description :: string
  eb_date :: "int option"
  eb_location :: string
  eb_status :: "string option"
  eb_equipments :: "EquipmentItem list option"

text \<open>\<open>EventSchema\<close> of \<open>/api/events\<close>: it has no \<open>status\<close> key, so a submitted one is dropped.\<close>

definition EventSchema_success :: "EventBody \<Rightarrow> bool" where
  "EventSchema_success b \<longleftrightarrow>
     1 \<le> length (eb_title b) \<and> 1 \<le> length (eb_description b) \<and> eb_date b \<noteq> None \<and>
     1 \<le> length (eb_location b) \<and>
     (case eb_equipments b of None \<Rightarrow> True | Some items \<Rightarrow> list_all (\<lambda>it. 1 \<le> it_quantity it) items)"

text \<open>\<open>EventSchema\<close> of \<open>/api/events/[id]\<close>: the same, with an optional \<open>status\<close> from an enum.\<close>

definition EventSchema_id_success :: "EventBody \<Rightarrow> bool" where
  "EventSchema_id_success b \<longleftrightarrow>
     EventSchema_success b \<and>
     (case eb_status b of None \<Rightarrow> True
      | Some s \<Rightarrow> s = ''upcoming'' \<or> s = ''ongoing'' \<or> s = ''completed'')"

text \<open>\<open>events.findUnique\<close> with the key of the URL.\<close>

definition events_findUnique :: "id \<Rightarrow> db \<Rightarrow> error + Events option" where
  "events_findUnique i d = (if text_ok i then Inr (events d i) else Inl invalid_text)"

text \<open>
  \<open>events.create\<close>: the key is generated by the ORM and is an input here. The texts and
  the date must be values the columns hold.
\<close>

definition events_create :: "id \<Rightarrow> Events \<Rightarrow> db \<Rightarrow> error + db" where
  "events_create i ev d =
     (if \<not> timestamp_ok (ev_date ev) then Inl invalid_date
      else if \<not> (text_ok (ev_title ev) \<and> text_ok (ev_description ev) \<and> text_ok (ev_location ev))
        then Inl invalid_text
      else if events d i \<noteq> None then Inl (PrismaClientKnownRequestError ''P2002'')
      else Inr (d\<lparr>events := (events d)(i \<mapsto> ev)\<rparr>))"

text \<open>\<open>events.update\<close>, with the same checks on the new values.\<close>

definition events_update_row :: "id \<Rightarrow> (Events \<Rightarrow> Events) \<Rightarrow> db \<Rightarrow> error + db" where
  "events_update_row i f d =
     (case events d i of
        None \<Rightarrow> Inl (PrismaClientKnownRequestError ''P2025'')
      | Some ev \<Rightarrow>
          if \<not> timestamp_ok (ev_date (f ev)) then Inl invalid_date
          else if \<not> (text_ok (ev_title (f ev)) \<and> text_ok (ev_description (f ev)) \<and>
                       text_ok (ev_location (f ev)))
            then Inl invalid_text
          else Inr (d\<lparr>events := (events d)(i \<mapsto> f ev)\<rparr>))"

text \<open>\<open>equipmentEvent.findMany\<close> and \<open>deleteMany\<close> with \<open>where: { eventId }\<close>.\<close>

definition equipmentEvent_findMany :: "id \<Rightarrow> db \<Rightarrow> EquipmentEvent list" where
  "equipmentEvent_findMany i d = filter (\<lambda>r. ee_eventId r = i) (equipmentEvent d)"

definition equipmentEvent_deleteMany :: "id \<Rightarrow> db \<Rightarrow> db" where
  "equipmentEvent_deleteMany i d =
     d\<lparr>equipmentEvent := filter (\<lambda>r. ee_eventId r \<noteq> i) (equipmentEvent d)\<rparr>"

text \<open>
  \<open>equipmentEvent.createMany\<close>: every quantity must fit its column; the unique index on
  (\<open>equipmentId\<close>, \<open>eventId\<close>) rejects a pair that occurs twice in the batch or is
  already stored; the foreign keys reject a row whose equipment or event is missing.
\<close>

definition ee_key :: "EquipmentEvent \<Rightarrow> id \<times> id" where
  "ee_key r = (ee_equipmentId r, ee_eventId r)"

definition equipmentEvent_createMany :: "EquipmentEvent list \<Rightarrow> db \<Rightarrow> error + db" where
  "equipmentEvent_createMany rows d =
     (if \<not> list_all (\<lambda>r. int4 (ee_quantity r)) rows then Inl out_of_range
      else if \<not> distinct (map ee_key rows) \<or>
         (\<exists>r \<in> set rows. ee_key r \<in> set (map ee_key (equipmentEvent d)))
        then Inl (PrismaClientKnownRequestError ''P2002'')
      else if \<exists>r \<in> set rows. equipments d (ee_equipmentId r) = None \<or> events d (ee_eventId r) = None
        then Inl (PrismaClientKnownRequestError ''P2003'')
      else Inr (d\<lparr>equipmentEvent := equipmentEvent d @ rows\<rparr>))"

text \<open>\<open>events.delete\<close>; the rows of \<open>EquipmentEvent\<close> that point to the event go with it.\<close>

definition events_delete :: "id \<Rightarrow> db \<Rightarrow> error + db" where
  "events_delete i d =
     (case events d i of
        None \<Rightarrow> Inl (PrismaClientKnownRequestError ''P2025'')
      | Some ev \<Rightarrow>
          Inr (d\<lparr>events := (events d)(i := None),
                 equipmentEvent := filter (\<lambda>r. ee_eventId r \<noteq> i) (equipmentEvent d)\<rparr>))"

text \<open>
  \<open>events.deleteMany\<close> with \<open>where: { id: { in: ids } }\<close>, cascading in the same way.
  The keys come from the query string.
\<close>

definition events_deleteMany :: "id list \<Rightarrow> db \<Rightarrow> error + db" where
  "events_deleteMany ids d =
     (if list_all text_ok ids
      then Inr (d\<lparr>events := (\<lambda>i. if i \<in> set ids then None else events d i),
                 equipmentEvent := filter (\<lambda>r. ee_eventId r \<notin> set ids) (equipmentEvent d)\<rparr>)
      else Inl invalid_text)"

section \<open>Event routes: the loops over equipment\<close>

text \<open>
  The validation loop: every item must name an equipment whose stock covers it. The
  message of the second error also quotes the two figures, which are left out here.
\<close>

fun validate_stock :: "db \<Rightarrow> EquipmentItem list \<Rightarrow> error + unit" where
  "validate_stock d [] = Inr ()"
| "validate_stock d (item # items) =
     (case equipments_findUnique (it_equipmentId item) d of
        Inl err \<Rightarrow> Inl err
      | Inr None \<Rightarrow>
          Inl (Error (''Equipment dengan ID '' @ it_equipmentId item @ '' tidak ditemukan''))
      | Inr (Some equipment) \<Rightarrow>
          if eq_stock equipment < it_quantity item
          then Inl (Error (''Stok '' @ eq_name equipment @ '' tidak cukup''))
          else validate_stock d items)"

text \<open>The loop that decreases the stock, one update per item.\<close>

fun decrease_stock :: "EquipmentItem list \<Rightarrow> db \<Rightarrow> error + db" where
  "decrease_stock [] d = Inr d"
| "decrease_stock (item # items) d =
     (case equipments_update_decrement (it_equipmentId item) (it_quantity item) d of
        Inl err \<Rightarrow> Inl err
      | Inr d' \<Rightarrow> decrease_stock items d')"

text \<open>The loop that gives the stock of stored reservations back, one update per row.\<close>

fun restore_stock :: "EquipmentEvent list \<Rightarrow> db \<Rightarrow> error + db" where
  "restore_stock [] d = Inr d"
| "restore_stock (r # rs) d =
     (case equipments_update_increment (ee_equipmentId r) (ee_quantity r) d of
        Inl err \<Rightarrow> Inl err
      | Inr d' \<Rightarrow> restore_stock rs d')"

text \<open>
  The block both \<open>POST /api/events\<close> and \<open>PUT /api/events/[id]\<close> run for a non-empty
  list: validate every item, create the rows, decrease the stock.
\<close>

definition reserve_equipments :: "id \<Rightarrow> EquipmentItem list \<Rightarrow> db \<Rightarrow> error + db" where
  "reserve_equipments ev items d =
     (case validate_stock d items of
        Inl err \<Rightarrow> Inl err
      | Inr u \<Rightarrow>
          (case equipmentEvent_createMany
                  (map (\<lambda>item. \<lparr>ee_equipmentId = it_equipmentId item, ee_eventId = ev,
                                 ee_quantity = it_quantity item\<rparr>) items) d of
             Inl err \<Rightarrow> Inl err
           | Inr d' \<Rightarrow> decrease_stock items d'))"

section \<open>POST /api/events and DELETE /api/events\<close>

text \<open>
  The body of the transaction. A thrown error leaves the function with \<open>Inl\<close>, and the
  handler then keeps the database it started from: that is the rollback. The closing
  \<open>findUnique\<close> only reads the event for the response body and is not modelled.
\<close>

definition events_POST_tx :: "id \<Rightarrow> EventBody \<Rightarrow> db \<Rightarrow> error + db" where
  "events_POST_tx newId b d =
     (case eb_date b of
        None \<Rightarrow> Inl (Error ''Invalid Date'')
      | Some t \<Rightarrow>
          (case events_create newId
                  \<lparr>ev_title = eb_title b, ev_description = eb_description b, ev_date = t,
                   ev_location = eb_location b, ev_status = ''upcoming'',
                   ev_reportGenerated = False\<rparr> d of
             Inl err \<Rightarrow> Inl err
           | Inr d1 \<Rightarrow>
               (case eb_equipments b of
                  None \<Rightarrow> Inr d1
                | Some items \<Rightarrow>
                    if 0 < length items then reserve_equipments newId items d1 else Inr d1)))"

text \<open>The \<open>catch\<close> of the event routes that answer 400: every thrown value is an \<open>Error\<close>.\<close>

definition events_catch :: "error \<Rightarrow> nat" where
  "events_catch err = (case err of ZodError \<Rightarrow> 400 | PrismaClientKnownRequestError c \<Rightarrow> 400 | Error m \<Rightarrow> 400)"

definition events_POST :: "db \<Rightarrow> id \<Rightarrow> EventBody \<Rightarrow> nat \<times> db" where
  "events_POST d newId b =
     (if \<not> EventSchema_success b then (events_catch ZodError, d)
      else case events_POST_tx newId b d of
        Inl err \<Rightarrow> (events_catch err, d)
      | Inr d' \<Rightarrow> (201, d'))"

text \<open>
  The bulk delete. \<open>ids\<close> is the \<open>ids\<close> query parameter split at commas, and the empty
  list when the parameter is absent.
\<close>

definition events_DELETE :: "db \<Rightarrow> id list \<Rightarrow> nat \<times> db" where
  "events_DELETE d ids =
     (if length ids = 0 then (400, d)
      else case events_deleteMany ids d of
        Inl err \<Rightarrow> (500, d)
      | Inr d' \<Rightarrow> (200, d'))"

section \<open>PUT and DELETE /api/events/[id]\<close>

definition events_id_PUT_tx :: "id \<Rightarrow> EventBody \<Rightarrow> db \<Rightarrow> error + db" where
  "events_id_PUT_tx i b d =
     (case eb_date b of
        None \<Rightarrow> Inl (Error ''Invalid Date'')
      | Some t \<Rightarrow>
          (case events_update_row i
                  (\<lambda>ev. ev\<lparr>ev_title := eb_title b, ev_description := eb_description b,
                           ev_date := t, ev_location := eb_location b,
                           ev_status := (case eb_status b of
                                           None \<Rightarrow> ev_status ev
                                         | Some s \<Rightarrow> if s = [] then ev_status ev else s)\<rparr>) d of
             Inl err \<Rightarrow> Inl err
           | Inr d1 \<Rightarrow>
               (case eb_equipments b of
                  None \<Rightarrow> Inr d1
                | Some items \<Rightarrow>
                    (let oldEquipmentEvents = equipmentEvent_findMany i d1;
                         d2 = equipmentEvent_deleteMany i d1
                     in case restore_stock oldEquipmentEvents d2 of
                          Inl err \<Rightarrow> Inl err
                        | Inr d3 \<Rightarrow>
                            if 0 < length items then reserve_equipments i items d3
                            else Inr d3))))"

definition events_id_PUT :: "db \<Rightarrow> id \<Rightarrow> EventBody \<Rightarrow> nat \<times> db" where
  "events_id_PUT d i b =
     (if \<not> EventSchema_id_success b then (events_catch ZodError, d)
      else case events_findUnique i d of
        Inl err \<Rightarrow> (events_catch err, d)
      | Inr None \<Rightarrow> (404, d)
      | Inr (Some existingEvent) \<Rightarrow>
          (case events_id_PUT_tx i b d of
             Inl err \<Rightarrow> (events_catch err, d)
           | Inr d' \<Rightarrow> (200, d')))"

definition events_id_DELETE_tx :: "id \<Rightarrow> db \<Rightarrow> error + db" where
  "events_id_DELETE_tx i d =
     (case restore_stock (equipmentEvent_findMany i d) d of
        Inl err \<Rightarrow> Inl err
      | Inr d' \<Rightarrow> events_delete i d')"

definition events_id_DELETE :: "db \<Rightarrow> id \<Rightarrow> nat \<times> db" where
  "events_id_DELETE d i =
     (case events_findUnique i d of
        Inl err \<Rightarrow> (500, d)
      | Inr None \<Rightarrow> (404, d)
      | Inr (Some existingEvent) \<Rightarrow>
          (case events_id_DELETE_tx i d of
             Inl err \<Rightarrow> (500, d)
           | Inr d' \<Rightarrow> (200, d')))"

section \<open>Authentication wrapper\<close>

record JWTPayload =
  jp_sub :: string
  jp_email :: "string option"
  jp_role :: "string option"
  jp_userId :: "int option"

record user =
  userId :: int
  email :: "string option"
  role :: "string option"

record NextRequest =
  cookies :: "string \<rightharpoonup> string"

record NextResponse =
  status :: nat
  message :: string

text \<open>\<open>getSecret\<close> throws when \<open>JWT_SECRET\<close> is unset or empty.\<close>

definition getSecret :: "string option \<Rightarrow> error + string" where
  "getSecret env =
     (case env of
        None \<Rightarrow> Inl (Error ''JWT_SECRET is not defined in environment variables'')
      | Some secret \<Rightarrow>
          if secret = [] then Inl (Error ''JWT_SECRET is not defined in environment variables'')
          else Inr secret)"

text \<open>
  \<open>verifyToken\<close>: \<open>jwtVerify\<close> is the library's verification of a token against a
  secret, \<open>None\<close> when it throws; anything thrown makes the result \<open>null\<close>.
\<close>

definition verifyToken ::
    "(string \<Rightarrow> string \<Rightarrow> JWTPayload option) \<Rightarrow> string option \<Rightarrow> string \<Rightarrow> JWTPayload option" where
  "verifyToken jwtVerify env token =
     (case getSecret env of Inl err \<Rightarrow> None | Inr secret \<Rightarrow> jwtVerify token secret)"

text \<open>
  \<open>authenticateRequest\<close>. The tests \<open>!token\<close> and \<open>!verified.userId\<close> are truthiness
  tests: an empty token and a user id of 0 fail them as the absent ones do.
\<close>

definition authenticateRequest ::
    "(string \<Rightarrow> string \<Rightarrow> JWTPayload option) \<Rightarrow> string option \<Rightarrow> 'a NextRequest_scheme \<Rightarrow> user option" where
  "authenticateRequest jwtVerify env request =
     (case cookies request ''jwt-access-token'' of
        None \<Rightarrow> None
      | Some token \<Rightarrow>
          if token = [] then None
          else (case verifyToken jwtVerify env token of
                  None \<Rightarrow> None
                | Some verified \<Rightarrow>
                    (case jp_userId verified of
                       None \<Rightarrow> None
                     | Some uid \<Rightarrow>
                         if uid = 0 then None
                         else Some \<lparr>userId = uid, email = jp_email verified,
                                    role = jp_role verified\<rparr>)))"

text \<open>
  \<open>withAuth\<close>. The wrapped handler acts on a state of type \<open>'s\<close>; the wrapper answers
  401 and leaves the state alone when authentication fails.
\<close>

definition Unauthorized :: NextResponse where
  "Unauthorized = \<lparr>status = 401, message = ''Unauthorized - Please login''\<rparr>"

definition withAuth ::
    "(string \<Rightarrow> string \<Rightarrow> JWTPayload option) \<Rightarrow> string option \<Rightarrow>
     ('a NextRequest_scheme \<Rightarrow> user \<Rightarrow> 's \<Rightarrow> NextResponse \<times> 's) \<Rightarrow>
     'a NextRequest_scheme \<Rightarrow> 's \<Rightarrow> NextResponse \<times> 's" where
  "withAuth jwtVerify env handler request s =
     (case authenticateRequest jwtVerify env request of
        None \<Rightarrow> (Unauthorized, s)
      | Some auth \<Rightarrow> handler request auth s)"

section \<open>Quantities the statements speak about\<close>

text \<open>The total quantity a list of requested items asks of one equipment.\<close>

definition requested :: "id \<Rightarrow> EquipmentItem list \<Rightarrow> int" where
  "requested e items = sum_list (map it_quantity (filter (\<lambda>it. it_equipmentId it = e) items))"

text \<open>The total quantity a list of stored reservations holds of one equipment.\<close>

definition reserved :: "id \<Rightarrow> EquipmentEvent list \<Rightarrow> int" where
  "reserved e rows = sum_list (map ee_quantity (filter (\<lambda>r. ee_equipmentId r = e) rows))"

text \<open>A stored reservation read back as a requested item.\<close>

definition row_item :: "EquipmentEvent \<Rightarrow> EquipmentItem" where
  "row_item r = \<lparr>it_equipmentId = ee_equipmentId r, it_quantity = ee_quantity r\<rparr>"

text \<open>The database with every stock moved by an amount that depends on the equipment.\<close>

definition shift_stock :: "(id \<Rightarrow> int) \<Rightarrow> db \<Rightarrow> db" where
  "shift_stock f d =
     d\<lparr>equipments := (\<lambda>i. map_option (\<lambda>e. e\<lparr>eq_stock := eq_stock e + f i\<rparr>) (equipments d i))\<rparr>"

section \<open>Example states and requests\<close>

definition example_db :: db where
  "example_db =
     \<lparr>equipments = [''eq1'' \<mapsto> \<lparr>eq_name = ''Mixer'', eq_category = ''Audio'', eq_stock = 5\<rparr>,
                    ''eq2'' \<mapsto> \<lparr>eq_name = ''Speaker'', eq_category = ''Audio'', eq_stock = 3\<rparr>],
      events = Map.empty, equipmentEvent = [], damagedEquipment = Map.empty\<rparr>"

text \<open>
  The same inventory with two events: the first holds two mixers and one speaker, the
  second one mixer.
\<close>

definition example_booked :: db where
  "example_booked =
     \<lparr>equipments = [''eq1'' \<mapsto> \<lparr>eq_name = ''Mixer'', eq_category = ''Audio'', eq_stock = 2\<rparr>,
                    ''eq2'' \<mapsto> \<lparr>eq_name = ''Speaker'', eq_category = ''Audio'', eq_stock = 2\<rparr>],
      events = [''ev1'' \<mapsto> \<lparr>ev_title = ''Gig'', ev_description = ''Live'', ev_date = 1000,
                               ev_location = ''Hall'', ev_status = ''upcoming'',
                               ev_reportGenerated = False\<rparr>,
                ''ev2'' \<mapsto> \<lparr>ev_title = ''Fair'', ev_description = ''Stage'', ev_date = 2000,
                               ev_location = ''Park'', ev_status = ''upcoming'',
                               ev_reportGenerated = False\<rparr>],
      equipmentEvent = [\<lparr>ee_equipmentId = ''eq1'', ee_eventId = ''ev1'', ee_quantity = 2\<rparr>,
                        \<lparr>ee_equipmentId = ''eq1'', ee_eventId = ''ev2'', ee_quantity = 1\<rparr>,
                        \<lparr>ee_equipmentId = ''eq2'', ee_eventId = ''ev1'', ee_quantity = 1\<rparr>],
      damagedEquipment = Map.empty\<rparr>"

text \<open>The inventory with a damage report on two mixers whose repair is completed.\<close>

definition example_repaired :: db where
  "example_repaired =
     \<lparr>equipments = [''eq1'' \<mapsto> \<lparr>eq_name = ''Mixer'', eq_category = ''Audio'', eq_stock = 5\<rparr>],
      events = Map.empty, equipmentEvent = [],
      damagedEquipment = [''dm1'' \<mapsto> \<lparr>de_equipmentId = ''eq1'', de_quantity = 2,
                                         de_description = None, de_repairStatus = completed,
                                         de_reportedAt = 100, de_repairedAt = Some 200\<rparr>]\<rparr>"

definition example_event :: "EquipmentItem list \<Rightarrow> EventBody" where
  "example_event items =
     \<lparr>eb_title = ''Gig'', eb_description = ''Live'', eb_date = Some 1000, eb_location = ''Hall'',
      eb_status = None, eb_equipments = Some items\<rparr>"

definition example_report :: "string \<Rightarrow> int \<Rightarrow> DamagedEquipmentBody" where
  "example_report e q = \<lparr>rb_equipmentId = e, rb_quantity = q, rb_description = None\<rparr>"

definition example_status :: "string \<Rightarrow> UpdateDamagedEquipmentBody" where
  "example_status s = \<lparr>ub_quantity = None, ub_description = None, ub_repairStatus = Some s\<rparr>"

definition example_completed :: "int \<Rightarrow> UpdateDamagedEquipmentBody" where
  "example_completed q =
     \<lparr>ub_quantity = Some q, ub_description = None, ub_repairStatus = Some ''completed''\<rparr>"

text \<open>A verification that accepts two tokens under one secret, with user ids 0 and 7.\<close>

definition example_jwtVerify :: "string \<Rightarrow> string \<Rightarrow> JWTPayload option" where
  "example_jwtVerify token secret =
     (if secret = ''s3cret'' \<and> token = ''token0''
        then Some \<lparr>jp_sub = ''0'', jp_email = None, jp_role = None, jp_userId = Some 0\<rparr>
      else if secret = ''s3cret'' \<and> token = ''token7''
        then Some \<lparr>jp_sub = ''7'', jp_email = None, jp_role = None, jp_userId = Some 7\<rparr>
      else None)"

text \<open>A handler that answers 200; its state counts how often it ran.\<close>

definition example_handler :: "NextRequest \<Rightarrow> user \<Rightarrow> nat \<Rightarrow> NextResponse \<times> nat" where
  "example_handler request u s = (\<lparr>status = 200, message = ''ok''\<rparr>, Suc s)"

definition example_request :: "string option \<Rightarrow> NextRequest" where
  "example_request token = \<lparr>cookies = (\<lambda>k. if k = ''jwt-access-token'' then token else None)\<rparr>"

section \<open>Facts about the loops and the ORM operations\<close>

lemma RepairStatus_enum_completed: "RepairStatus_enum ''completed'' = Some completed"
  by (simp add: RepairStatus_enum_def)

lemma events_catch_400: "events_catch err = 400"
  by (cases err) (simp_all add: events_catch_def)

lemma validate_stock_Inr:
  "validate_stock d items = Inr u \<longleftrightarrow>
     (\<forall>it \<in> set items. text_ok (it_equipmentId it) \<and>
        (\<exists>e. equipments d (it_equipmentId it) = Some e \<and> it_quantity it \<le> eq_stock e))"
  by (induction items) (auto simp: equipments_findUnique_def split: option.splits)

lemma shift_decrement:
  assumes "equipments d (it_equipmentId it) = Some e"
  shows "shift_stock (\<lambda>i. - requested i items)
           (d\<lparr>equipments := (equipments d)(it_equipmentId it \<mapsto>
                 e\<lparr>eq_stock := eq_stock e - it_quantity it\<rparr>)\<rparr>) =
         shift_stock (\<lambda>i. - requested i (it # items)) d"
  using assms by (auto simp: shift_stock_def requested_def fun_eq_iff)

lemma shift_increment:
  assumes "equipments d (ee_equipmentId r) = Some e"
  shows "shift_stock (\<lambda>i. reserved i rows)
           (d\<lparr>equipments := (equipments d)(ee_equipmentId r \<mapsto>
                 e\<lparr>eq_stock := eq_stock e + ee_quantity r\<rparr>)\<rparr>) =
         shift_stock (\<lambda>i. reserved i (r # rows)) d"
  using assms by (auto simp: shift_stock_def reserved_def fun_eq_iff)

text \<open>A loop that finished has moved every stock by the total of its list.\<close>

lemma decrease_stock_InrD:
  "decrease_stock items d = Inr d' \<Longrightarrow>
     d' = shift_stock (\<lambda>i. - requested i items) d \<and>
     (\<forall>it \<in> set items. equipments d (it_equipmentId it) \<noteq> None)"
proof (induction items arbitrary: d)
  case Nil
  then show ?case by (auto simp: shift_stock_def requested_def option.map_ident)
next
  case (Cons it items)
  from Cons.prems obtain e where e: "equipments d (it_equipmentId it) = Some e"
    and rest: "decrease_stock items
                 (d\<lparr>equipments := (equipments d)(it_equipmentId it \<mapsto>
                       e\<lparr>eq_stock := eq_stock e - it_quantity it\<rparr>)\<rparr>) = Inr d'"
    by (auto simp: equipments_update_decrement_def split: option.splits if_splits)
  from Cons.IH [OF rest] e show ?case
    by (auto simp: shift_decrement [OF e] split: if_splits)
qed

lemma restore_stock_InrD:
  "restore_stock rows d = Inr d' \<Longrightarrow>
     d' = shift_stock (\<lambda>i. reserved i rows) d \<and>
     (\<forall>r \<in> set rows. equipments d (ee_equipmentId r) \<noteq> None)"
proof (induction rows arbitrary: d)
  case Nil
  then show ?case by (auto simp: shift_stock_def reserved_def option.map_ident)
next
  case (Cons r rows)
  from Cons.prems obtain e where e: "equipments d (ee_equipmentId r) = Some e"
    and rest: "restore_stock rows
                 (d\<lparr>equipments := (equipments d)(ee_equipmentId r \<mapsto>
                       e\<lparr>eq_stock := eq_stock e + ee_quantity r\<rparr>)\<rparr>) = Inr d'"
    by (auto simp: equipments_update_increment_def split: option.splits if_splits)
  from Cons.IH [OF rest] e show ?case
    by (auto simp: shift_increment [OF e] split: if_splits)
qed

text \<open>A loop over distinct equipment finishes when every single result fits the column.\<close>

lemma decrease_stock_InrI:
  assumes "distinct (map it_equipmentId items)"
      and "\<forall>it \<in> set items. \<exists>e. equipments d (it_equipmentId it) = Some e \<and>
             int4 (eq_stock e - it_quantity it)"
  shows "decrease_stock items d = Inr (shift_stock (\<lambda>i. - requested i items) d)"
  using assms
proof (induction items arbitrary: d)
  case Nil
  show ?case by (simp add: shift_stock_def requested_def option.map_ident)
next
  case (Cons it items)
  from Cons.prems(2) obtain e where e: "equipments d (it_equipmentId it) = Some e"
    and fits: "int4 (eq_stock e - it_quantity it)" by auto
  let ?d1 = "d\<lparr>equipments := (equipments d)(it_equipmentId it \<mapsto>
                   e\<lparr>eq_stock := eq_stock e - it_quantity it\<rparr>)\<rparr>"
  have step: "decrease_stock (it # items) d = decrease_stock items ?d1"
    using e fits by (simp add: equipments_update_decrement_def)
  have apart: "\<forall>x \<in> set items. it_equipmentId x \<noteq> it_equipmentId it"
    using Cons.prems(1) by (simp add: image_iff) metis
  have others: "\<forall>x \<in> set items. \<exists>y. equipments ?d1 (it_equipmentId x) = Some y \<and>
                  int4 (eq_stock y - it_quantity x)"
    using Cons.prems(2) apart by simp
  from Cons.prems(1) have "distinct (map it_equipmentId items)" by simp
  from Cons.IH [OF this others] show ?case
    unfolding step by (simp only: shift_decrement [OF e])
qed

lemma restore_stock_InrI:
  assumes "distinct (map ee_equipmentId rows)"
      and "\<forall>r \<in> set rows. \<exists>e. equipments d (ee_equipmentId r) = Some e \<and>
             int4 (eq_stock e + ee_quantity r)"
  shows "restore_stock rows d = Inr (shift_stock (\<lambda>i. reserved i rows) d)"
  using assms
proof (induction rows arbitrary: d)
  case Nil
  show ?case by (simp add: shift_stock_def reserved_def option.map_ident)
next
  case (Cons r rows)
  from Cons.prems(2) obtain e where e: "equipments d (ee_equipmentId r) = Some e"
    and fits: "int4 (eq_stock e + ee_quantity r)" by auto
  let ?d1 = "d\<lparr>equipments := (equipments d)(ee_equipmentId r \<mapsto>
                   e\<lparr>eq_stock := eq_stock e + ee_quantity r\<rparr>)\<rparr>"
  have step: "restore_stock (r # rows) d = restore_stock rows ?d1"
    using e fits by (simp add: equipments_update_increment_def)
  have apart: "\<forall>x \<in> set rows. ee_equipmentId x \<noteq> ee_equipmentId r"
    using Cons.prems(1) by (simp add: image_iff) metis
  have others: "\<forall>x \<in> set rows. \<exists>y. equipments ?d1 (ee_equipmentId x) = Some y \<and>
                  int4 (eq_stock y + ee_quantity x)"
    using Cons.prems(2) apart by simp
  from Cons.prems(1) have "distinct (map ee_equipmentId rows)" by simp
  from Cons.IH [OF this others] show ?case
    unfolding step by (simp only: shift_increment [OF e])
qed

lemma requested_absent: "e \<notin> it_equipmentId ` set items \<Longrightarrow> requested e items = 0"
  by (induction items) (auto simp: requested_def)

lemma requested_distinct:
  "distinct (map it_equipmentId items) \<Longrightarrow> it \<in> set items \<Longrightarrow>
     requested (it_equipmentId it) items = it_quantity it"
proof (induction items)
  case Nil
  then show ?case by simp
next
  case (Cons a items)
  show ?case
  proof (cases "it = a")
    case True
    with Cons.prems requested_absent [of "it_equipmentId a" items] show ?thesis
      by (simp add: requested_def)
  next
    case False
    with Cons.prems have "it \<in> set items" "it_equipmentId a \<noteq> it_equipmentId it" by auto
    with Cons show ?thesis by (simp add: requested_def)
  qed
qed

lemma requested_row_item: "requested e (map row_item rows) = reserved e rows"
  by (induction rows) (auto simp: requested_def reserved_def row_item_def)

lemma distinct_keys:
  "distinct (map (ee_key \<circ> (\<lambda>item. \<lparr>ee_equipmentId = it_equipmentId item, ee_eventId = ev,
       ee_quantity = it_quantity item\<rparr>)) items) = distinct (map it_equipmentId items)"
  by (induction items) (auto simp: ee_key_def)

lemma reserve_equipments_Nil: "reserve_equipments ev [] d = Inr d"
  by (simp add: reserve_equipments_def equipmentEvent_createMany_def)

text \<open>What a finished reservation block tells, and what makes it finish.\<close>

lemma reserve_equipments_InrD:
  assumes "reserve_equipments ev items d = Inr d'"
  shows "\<forall>it \<in> set items. text_ok (it_equipmentId it) \<and>
           (\<exists>e. equipments d (it_equipmentId it) = Some e \<and> it_quantity it \<le> eq_stock e)"
    and "distinct (map it_equipmentId items)"
    and "d' = shift_stock (\<lambda>i. - requested i items)
            (d\<lparr>equipmentEvent := equipmentEvent d @
                  map (\<lambda>item. \<lparr>ee_equipmentId = it_equipmentId item, ee_eventId = ev,
                                 ee_quantity = it_quantity item\<rparr>) items\<rparr>)"
proof -
  let ?rows = "map (\<lambda>item. \<lparr>ee_equipmentId = it_equipmentId item, ee_eventId = ev,
                              ee_quantity = it_quantity item\<rparr>) items"
  from assms obtain u d1 where v: "validate_stock d items = Inr u"
    and c: "equipmentEvent_createMany ?rows d = Inr d1"
    and dec: "decrease_stock items d1 = Inr d'"
    by (auto simp: reserve_equipments_def split: sum.splits)
  from v show "\<forall>it \<in> set items. text_ok (it_equipmentId it) \<and>
           (\<exists>e. equipments d (it_equipmentId it) = Some e \<and> it_quantity it \<le> eq_stock e)"
    by (simp add: validate_stock_Inr)
  from c have d1: "d1 = d\<lparr>equipmentEvent := equipmentEvent d @ ?rows\<rparr>"
    and dist: "distinct (map ee_key ?rows)"
    by (auto simp: equipmentEvent_createMany_def split: if_splits)
  from dist show "distinct (map it_equipmentId items)"
    by (simp add: distinct_keys)
  from decrease_stock_InrD [OF dec] d1
  show "d' = shift_stock (\<lambda>i. - requested i items) (d\<lparr>equipmentEvent := equipmentEvent d @ ?rows\<rparr>)"
    by simp
qed

lemma reserve_equipments_InrI:
  assumes "\<forall>it \<in> set items. text_ok (it_equipmentId it) \<and> 0 \<le> it_quantity it \<and>
             (\<exists>e. equipments d (it_equipmentId it) = Some e \<and> it_quantity it \<le> eq_stock e \<and>
                  eq_stock e \<le> 2147483647)"
      and "distinct (map it_equipmentId items)"
      and "\<forall>it \<in> set items. (it_equipmentId it, ev) \<notin> set (map ee_key (equipmentEvent d))"
      and "items \<noteq> [] \<longrightarrow> events d ev \<noteq> None"
  shows "reserve_equipments ev items d =
           Inr (shift_stock (\<lambda>i. - requested i items)
                  (d\<lparr>equipmentEvent := equipmentEvent d @
                        map (\<lambda>item. \<lparr>ee_equipmentId = it_equipmentId item, ee_eventId = ev,
                                       ee_quantity = it_quantity item\<rparr>) items\<rparr>))"
proof -
  let ?rows = "map (\<lambda>item. \<lparr>ee_equipmentId = it_equipmentId item, ee_eventId = ev,
                              ee_quantity = it_quantity item\<rparr>) items"
  let ?d1 = "d\<lparr>equipmentEvent := equipmentEvent d @ ?rows\<rparr>"
  have v: "validate_stock d items = Inr ()"
    unfolding validate_stock_Inr using assms(1) by blast
  have fit: "list_all (\<lambda>r. int4 (ee_quantity r)) ?rows"
    using assms(1) by (fastforce simp: list_all_iff int4_def)
  have known: "\<not> (\<exists>r \<in> set ?rows. equipments d (ee_equipmentId r) = None \<or> events d (ee_eventId r) = None)"
    using assms(1,4) by (cases items) auto
  have fresh: "\<not> (\<exists>r \<in> set ?rows. ee_key r \<in> set (map ee_key (equipmentEvent d)))"
    using assms(3) by (auto simp: ee_key_def)
  have c: "equipmentEvent_createMany ?rows d = Inr ?d1"
    using fit known fresh assms(2)
    by (simp add: equipmentEvent_createMany_def distinct_keys del: set_map)
  have "\<forall>it \<in> set items. \<exists>e. equipments ?d1 (it_equipmentId it) = Some e \<and>
          int4 (eq_stock e - it_quantity it)"
    using assms(1) by (fastforce simp: int4_def)
  from decrease_stock_InrI [OF assms(2) this] v c show ?thesis
    by (simp add: reserve_equipments_def)
qed

section \<open>Facts about the event handlers\<close>

lemma events_POST_tx_Inr:
  assumes "eb_date b = Some t"
  shows "events_POST_tx newId b d = Inr d' \<longleftrightarrow>
      timestamp_ok t \<and> text_ok (eb_title b) \<and> text_ok (eb_description b) \<and>
      text_ok (eb_location b) \<and> events d newId = None \<and>
      reserve_equipments newId (case eb_equipments b of None \<Rightarrow> [] | Some items \<Rightarrow> items)
        (d\<lparr>events := (events d)(newId \<mapsto>
             \<lparr>ev_title = eb_title b, ev_description = eb_description b, ev_date = t,
              ev_location = eb_location b, ev_status = ''upcoming'',
              ev_reportGenerated = False\<rparr>)\<rparr>) = Inr d'"
  using assms
  by (auto simp: events_POST_tx_def events_create_def reserve_equipments_Nil split: option.splits)

text \<open>
  What an update transaction that finished has done. The rows of the event are named by
  their \<open>eventId\<close>, not by what the handler read.
\<close>

lemma events_id_PUT_tx_InrD:
  assumes "events_id_PUT_tx i b d = Inr d'" and "eb_equipments b = Some items"
  shows "\<forall>e. map_option eq_stock (equipments d' e) =
              map_option (\<lambda>s. s + reserved e (filter (\<lambda>r. ee_eventId r = i) (equipmentEvent d))
                                - requested e items)
                (map_option eq_stock (equipments d e))"
    and "equipmentEvent d' = filter (\<lambda>r. ee_eventId r \<noteq> i) (equipmentEvent d) @
           map (\<lambda>item. \<lparr>ee_equipmentId = it_equipmentId item, ee_eventId = i,
                          ee_quantity = it_quantity item\<rparr>) items"
    and "\<forall>it \<in> set items. \<exists>e. equipments d (it_equipmentId it) = Some e \<and>
           it_quantity it \<le> eq_stock e +
             reserved (it_equipmentId it) (filter (\<lambda>r. ee_eventId r = i) (equipmentEvent d))"
proof -
  let ?old = "filter (\<lambda>r. ee_eventId r = i) (equipmentEvent d)"
  from assms obtain t ev where t: "eb_date b = Some t" and ev: "events d i = Some ev"
    by (auto simp: events_id_PUT_tx_def events_update_row_def split: option.splits)
  define d1 where "d1 = d\<lparr>events := (events d)(i \<mapsto>
      ev\<lparr>ev_title := eb_title b, ev_description := eb_description b,
         ev_date := t, ev_location := eb_location b,
         ev_status := (case eb_status b of None \<Rightarrow> ev_status ev
                       | Some s \<Rightarrow> if s = [] then ev_status ev else s)\<rparr>)\<rparr>"
  have old: "equipmentEvent_findMany i d1 = ?old"
    by (simp add: d1_def equipmentEvent_findMany_def)
  from assms(1) obtain d3 where r: "restore_stock ?old (equipmentEvent_deleteMany i d1) = Inr d3"
    and res: "reserve_equipments i items d3 = Inr d'"
    using t ev assms(2) old
    by (auto simp: events_id_PUT_tx_def events_update_row_def d1_def [symmetric]
          reserve_equipments_Nil Let_def split: sum.splits if_splits)
  from restore_stock_InrD [OF r]
  have d3: "d3 = shift_stock (\<lambda>e. reserved e ?old) (equipmentEvent_deleteMany i d1)" by simp
  from reserve_equipments_InrD(3) [OF res]
  have d': "d' = shift_stock (\<lambda>e. - requested e items)
            (d3\<lparr>equipmentEvent := equipmentEvent d3 @
                  map (\<lambda>item. \<lparr>ee_equipmentId = it_equipmentId item, ee_eventId = i,
                                 ee_quantity = it_quantity item\<rparr>) items\<rparr>)" .
  show "\<forall>e. map_option eq_stock (equipments d' e) =
              map_option (\<lambda>s. s + reserved e ?old - requested e items)
                (map_option eq_stock (equipments d e))"
    by (simp add: d' d3 d1_def shift_stock_def equipmentEvent_deleteMany_def
          option.map_comp comp_def)
  show "equipmentEvent d' = filter (\<lambda>r. ee_eventId r \<noteq> i) (equipmentEvent d) @
           map (\<lambda>item. \<lparr>ee_equipmentId = it_equipmentId item, ee_eventId = i,
                          ee_quantity = it_quantity item\<rparr>) items"
    by (simp add: d' d3 d1_def shift_stock_def equipmentEvent_deleteMany_def)
  from reserve_equipments_InrD(1) [OF res]
  show "\<forall>it \<in> set items. \<exists>e. equipments d (it_equipmentId it) = Some e \<and>
           it_quantity it \<le> eq_stock e + reserved (it_equipmentId it) ?old"
    by (fastforce simp: d3 d1_def shift_stock_def equipmentEvent_deleteMany_def)
qed

lemma events_id_PUT_cases:
  "(\<exists>d'. events_id_PUT d i b = (200, d') \<and> events_id_PUT_tx i b d = Inr d') \<or>
   (fst (events_id_PUT d i b) \<noteq> 200 \<and> snd (events_id_PUT d i b) = d)"
  by (auto simp: events_id_PUT_def events_catch_400 split: option.splits sum.splits)

lemma events_id_PUT_refused:
  assumes "events d i \<noteq> None" and "fst (events_id_PUT d i b) \<noteq> 200"
  shows "events_id_PUT d i b = (400, d)"
  using assms
  by (auto simp: events_id_PUT_def events_findUnique_def events_catch_400
        split: option.splits sum.splits if_splits)

text \<open>Conditions under which the update is accepted.\<close>

lemma events_id_PUT_success:
  assumes "EventSchema_id_success b" and "eb_equipments b = Some items"
      and "text_ok i" and "events d i \<noteq> None"
      and "text_ok (eb_title b) \<and> text_ok (eb_description b) \<and> text_ok (eb_location b)"
      and "\<forall>t. eb_date b = Some t \<longrightarrow> timestamp_ok t"
      and "distinct (map ee_equipmentId (filter (\<lambda>r. ee_eventId r = i) (equipmentEvent d)))"
      and "\<forall>r \<in> set (filter (\<lambda>r. ee_eventId r = i) (equipmentEvent d)).
             \<exists>e. equipments d (ee_equipmentId r) = Some e \<and> int4 (eq_stock e + ee_quantity r)"
      and "distinct (map it_equipmentId items)"
      and "\<forall>it \<in> set items. text_ok (it_equipmentId it) \<and>
             (\<exists>e. equipments d (it_equipmentId it) = Some e \<and>
                it_quantity it \<le> eq_stock e +
                  reserved (it_equipmentId it) (filter (\<lambda>r. ee_eventId r = i) (equipmentEvent d)) \<and>
                eq_stock e +
                  reserved (it_equipmentId it) (filter (\<lambda>r. ee_eventId r = i) (equipmentEvent d))
                  \<le> 2147483647)"
  shows "fst (events_id_PUT d i b) = 200"
proof -
  let ?old = "filter (\<lambda>r. ee_eventId r = i) (equipmentEvent d)"
  obtain t where t: "eb_date b = Some t"
    using assms(1) by (auto simp: EventSchema_id_success_def EventSchema_success_def)
  with assms(6) have date: "timestamp_ok t" by simp
  have positive: "\<forall>it \<in> set items. 0 \<le> it_quantity it"
    using assms(1,2)
    by (auto simp: EventSchema_id_success_def EventSchema_success_def list_all_iff)
  obtain ev where ev: "events d i = Some ev" using assms(4) by auto
  define d1 where "d1 = d\<lparr>events := (events d)(i \<mapsto>
      ev\<lparr>ev_title := eb_title b, ev_description := eb_description b,
         ev_date := t, ev_location := eb_location b,
         ev_status := (case eb_status b of None \<Rightarrow> ev_status ev
                       | Some s \<Rightarrow> if s = [] then ev_status ev else s)\<rparr>)\<rparr>"
  define d3 where "d3 = shift_stock (\<lambda>e. reserved e ?old) (equipmentEvent_deleteMany i d1)"
  have upd: "events_update_row i
      (\<lambda>ev. ev\<lparr>ev_title := eb_title b, ev_description := eb_description b,
               ev_date := t, ev_location := eb_location b,
               ev_status := (case eb_status b of None \<Rightarrow> ev_status ev
                             | Some s \<Rightarrow> if s = [] then ev_status ev else s)\<rparr>) d = Inr d1"
    using ev date assms(5) by (simp add: events_update_row_def d1_def)
  have old: "equipmentEvent_findMany i d1 = ?old"
    by (simp add: d1_def equipmentEvent_findMany_def)
  have "restore_stock ?old (equipmentEvent_deleteMany i d1) =
          Inr (shift_stock (\<lambda>e. reserved e ?old) (equipmentEvent_deleteMany i d1))"
    using assms(8)
    by (intro restore_stock_InrI [OF assms(7)])
       (simp add: d1_def equipmentEvent_deleteMany_def)
  then have r: "restore_stock ?old (equipmentEvent_deleteMany i d1) = Inr d3"
    by (simp add: d3_def)
  have cover: "\<forall>it \<in> set items. text_ok (it_equipmentId it) \<and> 0 \<le> it_quantity it \<and>
             (\<exists>e. equipments d3 (it_equipmentId it) = Some e \<and> it_quantity it \<le> eq_stock e \<and>
                  eq_stock e \<le> 2147483647)"
    using assms(10) positive
    by (fastforce simp: d3_def d1_def shift_stock_def equipmentEvent_deleteMany_def)
  have fresh: "\<forall>it \<in> set items. (it_equipmentId it, i) \<notin> set (map ee_key (equipmentEvent d3))"
    by (auto simp: d3_def d1_def shift_stock_def equipmentEvent_deleteMany_def ee_key_def)
  have known: "items \<noteq> [] \<longrightarrow> events d3 i \<noteq> None"
    by (simp add: d3_def d1_def shift_stock_def equipmentEvent_deleteMany_def)
  from reserve_equipments_InrI [OF cover assms(9) fresh known]
  obtain d' where res: "reserve_equipments i items d3 = Inr d'" by blast
  have "events_id_PUT_tx i b d = Inr d' \<or> events_id_PUT_tx i b d = Inr d3"
    using t upd assms(2) old r res
    by (simp add: events_id_PUT_tx_def Let_def)
  then show ?thesis
    using assms(1,3) ev by (auto simp: events_id_PUT_def events_findUnique_def)
qed

text \<open>The bulk delete never writes to the equipment table.\<close>

lemma events_DELETE_equipments: "equipments (snd (events_DELETE d ids)) = equipments d"
  by (simp add: events_DELETE_def events_deleteMany_def)

text \<open>The single delete gives back what the rows of the event hold.\<close>

lemma events_id_DELETE_restores:
  assumes "text_ok i" and "events d i \<noteq> None"
      and "distinct (map ee_equipmentId (filter (\<lambda>r. ee_eventId r = i) (equipmentEvent d)))"
      and "\<forall>r \<in> set (filter (\<lambda>r. ee_eventId r = i) (equipmentEvent d)).
             \<exists>e. equipments d (ee_equipmentId r) = Some e \<and> int4 (eq_stock e + ee_quantity r)"
  shows "fst (events_id_DELETE d i) = 200 \<and>
         events (snd (events_id_DELETE d i)) i = None \<and>
         equipmentEvent (snd (events_id_DELETE d i)) =
           filter (\<lambda>r. ee_eventId r \<noteq> i) (equipmentEvent d) \<and>
         (\<forall>e. map_option eq_stock (equipments (snd (events_id_DELETE d i)) e) =
               map_option (\<lambda>s. s + reserved e (filter (\<lambda>r. ee_eventId r = i) (equipmentEvent d)))
                 (map_option eq_stock (equipments d e)))"
proof -
  let ?old = "filter (\<lambda>r. ee_eventId r = i) (equipmentEvent d)"
  obtain ev where ev: "events d i = Some ev" using assms(2) by auto
  let ?d1 = "shift_stock (\<lambda>e. reserved e ?old) d"
  have restored: "restore_stock ?old d = Inr ?d1"
    by (rule restore_stock_InrI [OF assms(3,4)])
  have kept: "events ?d1 i = Some ev"
    using ev by (simp add: shift_stock_def)
  show ?thesis
    using ev restored kept assms(1)
    by (simp add: events_id_DELETE_def events_id_DELETE_tx_def events_delete_def
          events_findUnique_def equipmentEvent_findMany_def
          shift_stock_def option.map_comp comp_def)
qed

section \<open>Facts about the damaged-equipment handlers\<close>

lemma damaged_catch_not_200: "damaged_catch err \<noteq> 200"
  by (cases err) (simp_all add: damaged_catch_def handlePrismaError_def)

lemma PUT_completed_step:
  assumes "UpdateDamagedEquipmentSchema_success b"
      and "ub_repairStatus b = Some ''completed''"
      and "int4_option (ub_quantity b)" and "text_option_ok (ub_description b)"
      and "text_ok i"
      and "damagedEquipment d i = Some existing"
      and "equipments d (de_equipmentId existing) = Some e"
      and "int4 (eq_stock e + de_quantity existing)"
  shows "damaged_equipments_id_PUT d i now b =
           (200, d\<lparr>equipments := (equipments d)(de_equipmentId existing \<mapsto>
                        e\<lparr>eq_stock := eq_stock e + de_quantity existing\<rparr>),
                   damagedEquipment := (damagedEquipment d)(i \<mapsto> updateData b now existing)\<rparr>)"
  using assms
  by (simp add: damaged_equipments_id_PUT_def damagedEquipment_findUnique_def
        equipments_update_increment_def damagedEquipment_update_row_def)


lemma updateData_completed:
  "ub_repairStatus b = Some ''completed'' \<Longrightarrow>
     de_repairStatus (updateData b now r) = completed \<and> de_repairedAt (updateData b now r) = Some now"
  by (simp add: updateData_def Let_def RepairStatus_enum_completed)

section \<open>The refusals of the database at work\<close>

text \<open>The ranges of the columns, at their ends.\<close>

lemma column_ranges:
  "int4 2147483647 \<and> \<not> int4 2147483648 \<and> int4 (- 2147483648) \<and> \<not> int4 (- 2147483649) \<and>
   timestamp_ok 253402300799999 \<and> \<not> timestamp_ok 253402300800000 \<and>
   timestamp_ok (- 62167219200000) \<and> \<not> timestamp_ok (- 62167219200001) \<and>
   text_ok ''Gig'' \<and> \<not> text_ok [CHR ''G'', CHR 0x00]"
  by (simp add: int4_def timestamp_ok_def text_ok_def)

text \<open>
  An event dated in the year 10000, or titled with the character of code 0, passes the
  schema and is answered with 400.
\<close>

lemma events_POST_refuses_values:
  "EventSchema_success ((example_event [])\<lparr>eb_date := Some 253402300800000\<rparr>) \<and>
   events_POST example_db ''ev1'' ((example_event [])\<lparr>eb_date := Some 253402300800000\<rparr>) =
     (400, example_db) \<and>
   EventSchema_success ((example_event [])\<lparr>eb_title := [CHR 0x00]\<rparr>) \<and>
   events_POST example_db ''ev1'' ((example_event [])\<lparr>eb_title := [CHR 0x00]\<rparr>) =
     (400, example_db)"
  by (simp add: EventSchema_success_def example_event_def events_POST_def events_POST_tx_def
        events_create_def events_catch_def invalid_date_def invalid_text_def
        timestamp_ok_def text_ok_def)

text \<open>The same date on an update of an existing event is answered with 400.\<close>

lemma events_id_PUT_refuses_values:
  "events_id_PUT example_booked ''ev1'' ((example_event [])\<lparr>eb_date := Some 253402300800000\<rparr>) =
     (400, example_booked)"
  by (simp add: EventSchema_id_success_def EventSchema_success_def example_event_def
        example_booked_def events_id_PUT_def events_id_PUT_tx_def events_findUnique_def
        events_update_row_def events_catch_def invalid_date_def timestamp_ok_def text_ok_def)

text \<open>A damage report whose description holds the character of code 0 is answered with 500.\<close>

lemma damaged_equipments_POST_refuses_description:
  "DamagedEquipmentSchema_success ((example_report ''eq1'' 2)\<lparr>rb_description := Some [CHR 0x00]\<rparr>) \<and>
   damaged_equipments_POST example_db ''dm1'' 100
     ((example_report ''eq1'' 2)\<lparr>rb_description := Some [CHR 0x00]\<rparr>) = (500, example_db)"
  by (simp add: DamagedEquipmentSchema_success_def example_report_def example_db_def
        damaged_equipments_POST_def equipments_findUnique_def damagedEquipment_create_def
        description_or_null_def text_option_ok_def text_ok_def int4_def
        damaged_catch_def handlePrismaError_def invalid_text_def)

text \<open>
  A completion at the upper end of the stock column is answered with 400 and changes
  nothing.
\<close>

lemma damaged_equipments_id_PUT_refuses_overflow:
  "damaged_equipments_id_PUT
     (example_repaired\<lparr>equipments :=
        [''eq1'' \<mapsto> \<lparr>eq_name = ''Mixer'', eq_category = ''Audio'', eq_stock = 2147483647\<rparr>]\<rparr>)
     ''dm1'' 300 (example_status ''completed'') =
   (400, example_repaired\<lparr>equipments :=
        [''eq1'' \<mapsto> \<lparr>eq_name = ''Mixer'', eq_category = ''Audio'', eq_stock = 2147483647\<rparr>]\<rparr>)"
  by (simp add: damaged_equipments_id_PUT_def UpdateDamagedEquipmentSchema_success_def
        RepairStatus_enum_def example_status_def example_repaired_def
        damagedEquipment_findUnique_def equipments_update_increment_def text_ok_def int4_def
        damaged_catch_def handlePrismaError_def out_of_range_def)

text \<open>
  The two writes of a completion are not one transaction: when the row update is refused,
  here for its description, the answer is 500, the record is as before, and the stock has
  been incremented all the same.
\<close>

lemma damaged_equipments_id_PUT_not_atomic:
  "fst (damaged_equipments_id_PUT example_repaired ''dm1'' 300
          ((example_status ''completed'')\<lparr>ub_description := Some [CHR 0x00]\<rparr>)) = 500 \<and>
   damagedEquipment (snd (damaged_equipments_id_PUT example_repaired ''dm1'' 300
          ((example_status ''completed'')\<lparr>ub_description := Some [CHR 0x00]\<rparr>))) =
     damagedEquipment example_repaired \<and>
   map_option eq_stock (equipments example_repaired ''eq1'') = Some 5 \<and>
   map_option eq_stock (equipments (snd (damaged_equipments_id_PUT example_repaired ''dm1'' 300
          ((example_status ''completed'')\<lparr>ub_description := Some [CHR 0x00]\<rparr>))) ''eq1'') = Some 7"
  by (simp add: damaged_equipments_id_PUT_def UpdateDamagedEquipmentSchema_success_def
        RepairStatus_enum_def example_status_def example_repaired_def
        damagedEquipment_findUnique_def equipments_update_increment_def
        damagedEquipment_update_row_def text_option_ok_def int4_option_def text_ok_def int4_def
        damaged_catch_def handlePrismaError_def invalid_text_def)

text \<open>
  A single delete that would push a stock over the upper end of its column is answered
  with 500 and changes nothing.
\<close>

lemma events_id_DELETE_refuses_overflow:
  "events_id_DELETE
     (example_booked\<lparr>equipments :=
        [''eq1'' \<mapsto> \<lparr>eq_name = ''Mixer'', eq_category = ''Audio'', eq_stock = 2147483647\<rparr>]\<rparr>)
     ''ev2'' =
   (500, example_booked\<lparr>equipments :=
        [''eq1'' \<mapsto> \<lparr>eq_name = ''Mixer'', eq_category = ''Audio'', eq_stock = 2147483647\<rparr>]\<rparr>)"
  by (simp add: events_id_DELETE_def events_id_DELETE_tx_def events_findUnique_def
        equipmentEvent_findMany_def equipments_update_increment_def example_booked_def
        text_ok_def int4_def)

text \<open>A bulk delete whose keys hold the character of code 0 is answered with 500.\<close>

lemma events_DELETE_refuses_key:
  "events_DELETE example_booked [''ev1'', [CHR 0x00]] = (500, example_booked)"
  by (simp add: events_DELETE_def events_deleteMany_def text_ok_def)

text \<open>
  A key that holds the character of code 0 makes the lookup itself fail: the report and
  the update of a damage answer 500, the update of an event 400, its single delete 500;
  none of them answers 404.
\<close>

lemma lookups_refuse_key:
  "damaged_equipments_POST example_db ''dm1'' 100 (example_report [CHR 0x00] 1) = (500, example_db) \<and>
   damaged_equipments_id_PUT example_repaired [CHR 0x00] 300 (example_status ''completed'') =
     (500, example_repaired) \<and>
   events_id_PUT example_booked [CHR 0x00] (example_event []) = (400, example_booked) \<and>
   events_id_DELETE example_booked [CHR 0x00] = (500, example_booked)"
  by (simp add: damaged_equipments_POST_def damaged_equipments_id_PUT_def events_id_PUT_def
        events_id_DELETE_def DamagedEquipmentSchema_success_def
        UpdateDamagedEquipmentSchema_success_def EventSchema_id_success_def
        EventSchema_success_def RepairStatus_enum_def example_report_def example_status_def
        example_event_def equipments_findUnique_def damagedEquipment_findUnique_def
        events_findUnique_def text_ok_def damaged_catch_def handlePrismaError_def
        events_catch_def invalid_text_def)

text \<open>
  A quantity beyond the column is refused where it is written: by the row update of a
  damage (400, nothing changed), by \<open>damagedEquipment.create\<close> and by \<open>createMany\<close>.
\<close>

lemma writes_refuse_quantity:
  "damaged_equipments_id_PUT example_repaired ''dm1'' 300
     ((example_status ''in_progress'')\<lparr>ub_quantity := Some 2147483648\<rparr>) =
     (400, example_repaired) \<and>
   damagedEquipment_create ''dm2''
     \<lparr>de_equipmentId = ''eq1'', de_quantity = 2147483648, de_description = None,
      de_repairStatus = pending, de_reportedAt = 100, de_repairedAt = None\<rparr> example_repaired =
     Inl out_of_range \<and>
   equipmentEvent_createMany
     [\<lparr>ee_equipmentId = ''eq1'', ee_eventId = ''ev1'', ee_quantity = 2147483648\<rparr>] example_booked =
     Inl out_of_range"
  by (simp add: damaged_equipments_id_PUT_def UpdateDamagedEquipmentSchema_success_def
        RepairStatus_enum_def example_status_def example_repaired_def
        damagedEquipment_findUnique_def damagedEquipment_update_row_def
        damagedEquipment_create_def equipmentEvent_createMany_def
        int4_option_def text_ok_def int4_def
        damaged_catch_def handlePrismaError_def out_of_range_def)

text \<open>A decrement below the column is refused as an increment above it is.\<close>

lemma decrement_refuses_underflow:
  "equipments_update_decrement ''eq1'' 2147483654 example_db = Inl out_of_range"
  by (simp add: equipments_update_decrement_def example_db_def int4_def)

section \<open>The handlers on further requests\<close>

text \<open>What the schemas refuse, each with 400 and no change.\<close>

lemma schemas_refuse:
  "events_POST example_db ''ev1'' (example_event [\<lparr>it_equipmentId = ''eq1'', it_quantity = 0\<rparr>]) =
     (400, example_db) \<and>
   events_POST example_db ''ev1'' ((example_event [])\<lparr>eb_title := []\<rparr>) = (400, example_db) \<and>
   events_POST example_db ''ev1'' ((example_event [])\<lparr>eb_description := []\<rparr>) = (400, example_db) \<and>
   events_POST example_db ''ev1'' ((example_event [])\<lparr>eb_location := []\<rparr>) = (400, example_db) \<and>
   events_POST example_db ''ev1'' ((example_event [])\<lparr>eb_date := None\<rparr>) = (400, example_db) \<and>
   events_id_PUT example_booked ''ev1'' ((example_event [])\<lparr>eb_status := Some ''done''\<rparr>) =
     (400, example_booked) \<and>
   damaged_equipments_POST example_db ''dm1'' 100 (example_report [] 1) = (400, example_db) \<and>
   damaged_equipments_id_PUT example_repaired ''dm1'' 300 (example_status ''repaired'') =
     (400, example_repaired)"
  by (simp add: events_POST_def events_id_PUT_def damaged_equipments_POST_def
        damaged_equipments_id_PUT_def EventSchema_success_def EventSchema_id_success_def
        DamagedEquipmentSchema_success_def UpdateDamagedEquipmentSchema_success_def
        RepairStatus_enum_def example_event_def example_report_def example_status_def
        events_catch_def)

text \<open>Keys that name nothing, an empty bulk request and a key already in use.\<close>

lemma other_answers:
  "events_id_PUT example_booked ''ev9'' (example_event []) = (404, example_booked) \<and>
   events_id_DELETE example_booked ''ev9'' = (404, example_booked) \<and>
   damaged_equipments_id_PUT example_repaired ''dm9'' 300 (example_status ''completed'') =
     (404, example_repaired) \<and>
   events_DELETE example_booked [] = (400, example_booked) \<and>
   damaged_equipments_POST example_repaired ''dm1'' 100 (example_report ''eq1'' 1) =
     (409, example_repaired) \<and>
   events_POST example_booked ''ev1'' (example_event []) = (400, example_booked)"
  by (simp add: events_id_PUT_def events_id_DELETE_def damaged_equipments_id_PUT_def
        events_DELETE_def damaged_equipments_POST_def events_POST_def events_POST_tx_def
        events_create_def EventSchema_success_def EventSchema_id_success_def
        DamagedEquipmentSchema_success_def UpdateDamagedEquipmentSchema_success_def
        RepairStatus_enum_def example_event_def example_report_def example_status_def
        example_booked_def example_repaired_def events_findUnique_def
        damagedEquipment_findUnique_def equipments_findUnique_def damagedEquipment_create_def
        description_or_null_def text_option_ok_def text_ok_def timestamp_ok_def int4_def
        damaged_catch_def handlePrismaError_def events_catch_def)

text \<open>The rows the handlers write.\<close>

lemma rows_written:
  "events (snd (events_POST example_db ''ev1'' (example_event []))) ''ev1'' =
     Some \<lparr>ev_title = ''Gig'', ev_description = ''Live'', ev_date = 1000, ev_location = ''Hall'',
           ev_status = ''upcoming'', ev_reportGenerated = False\<rparr> \<and>
   events (snd (events_id_PUT example_booked ''ev2''
                  ((example_event [])\<lparr>eb_status := Some ''ongoing''\<rparr>))) ''ev2'' =
     Some \<lparr>ev_title = ''Gig'', ev_description = ''Live'', ev_date = 1000, ev_location = ''Hall'',
           ev_status = ''ongoing'', ev_reportGenerated = False\<rparr> \<and>
   damagedEquipment (snd (damaged_equipments_POST example_db ''dm1'' 100
                  ((example_report ''eq1'' 2)\<lparr>rb_description := Some []\<rparr>))) ''dm1'' =
     Some \<lparr>de_equipmentId = ''eq1'', de_quantity = 2, de_description = None,
           de_repairStatus = pending, de_reportedAt = 100, de_repairedAt = None\<rparr> \<and>
   damagedEquipment (snd (damaged_equipments_id_PUT example_repaired ''dm1'' 300
                  \<lparr>ub_quantity = Some 3, ub_description = Some ''fan'', ub_repairStatus = None\<rparr>))
       ''dm1'' =
     Some \<lparr>de_equipmentId = ''eq1'', de_quantity = 3, de_description = Some ''fan'',
           de_repairStatus = completed, de_reportedAt = 100, de_repairedAt = Some 200\<rparr> \<and>
   equipments (snd (damaged_equipments_id_PUT example_repaired ''dm1'' 300
                  \<lparr>ub_quantity = Some 3, ub_description = Some ''fan'', ub_repairStatus = None\<rparr>)) =
     equipments example_repaired"
  by (simp add: events_POST_def events_POST_tx_def events_create_def events_id_PUT_def
        events_id_PUT_tx_def events_update_row_def events_findUnique_def
        equipmentEvent_findMany_def equipmentEvent_deleteMany_def equipments_update_increment_def
        damaged_equipments_POST_def damaged_equipments_id_PUT_def equipments_findUnique_def
        damagedEquipment_findUnique_def damagedEquipment_create_def
        damagedEquipment_update_row_def updateData_def description_or_null_def
        EventSchema_success_def EventSchema_id_success_def DamagedEquipmentSchema_success_def
        UpdateDamagedEquipmentSchema_success_def example_event_def example_report_def
        example_db_def example_booked_def example_repaired_def
        text_option_ok_def int4_option_def text_ok_def timestamp_ok_def int4_def)

text \<open>Without a secret, or with an empty one, no token verifies.\<close>

lemma verifyToken_needs_secret:
  "verifyToken example_jwtVerify None ''token7'' = None \<and>
   verifyToken example_jwtVerify (Some []) ''token7'' = None \<and>
   map_option jp_userId (verifyToken example_jwtVerify (Some ''s3cret'') ''token7'') = Some (Some 7)"
  by (simp add: verifyToken_def getSecret_def example_jwtVerify_def)

section \<open>Creating an event\<close>

text \<open>
  Claim C1, as stated, fails. It promises 201 for every \<open>POST /api/events\<close> whose list
  names only existing equipment with enough stock. A list that names the same equipment
  twice meets that condition, passes the schema and the validation loop, and is then
  rejected by the unique index on (\<open>equipmentId\<close>, \<open>eventId\<close>) when the rows are
  created: the handler answers 400 and nothing is stored.
\<close>

theorem events_POST_duplicate_rejected:
  "EventSchema_success
     (example_event [\<lparr>it_equipmentId = ''eq1'', it_quantity = 1\<rparr>,
                     \<lparr>it_equipmentId = ''eq1'', it_quantity = 1\<rparr>]) \<and>
   map_option eq_stock (equipments example_db ''eq1'') = Some 5 \<and>
   events_POST example_db ''ev1''
     (example_event [\<lparr>it_equipmentId = ''eq1'', it_quantity = 1\<rparr>,
                     \<lparr>it_equipmentId = ''eq1'', it_quantity = 1\<rparr>]) = (400, example_db)"
  by (simp add: EventSchema_success_def example_event_def example_db_def events_POST_def
        events_POST_tx_def events_create_def reserve_equipments_def equipments_findUnique_def
        equipmentEvent_createMany_def ee_key_def events_catch_def
        text_ok_def timestamp_ok_def int4_def)

text \<open>
  Claim C1, amended: for every \<open>POST /api/events\<close> whose body passes \<open>EventSchema\<close>,
  carries only values the database stores (texts and equipment keys without the character
  of code 0, a date within the years 0 to 9999) and whose equipments list names pairwise
  distinct existing equipment, each with a stock that is at least the requested quantity,
  the handler returns 201, stores the event, creates one \<open>EquipmentEvent\<close> row per list
  entry carrying exactly the requested quantity, and decrements each listed equipment's
  stock by exactly that quantity, leaving all other equipment alone; all of it is the
  result of the one transaction. The generated event key is new, stored reservations
  belong to stored events (the foreign key), and a stored stock is a 32-bit value.
\<close>

theorem events_POST_created:
  assumes "EventSchema_success b"
      and "text_ok (eb_title b) \<and> text_ok (eb_description b) \<and> text_ok (eb_location b)"
      and "\<forall>t. eb_date b = Some t \<longrightarrow> timestamp_ok t"
      and "events d newId = None"
      and "\<forall>r \<in> set (equipmentEvent d). events d (ee_eventId r) \<noteq> None"
      and "items = (case eb_equipments b of None \<Rightarrow> [] | Some xs \<Rightarrow> xs)"
      and "distinct (map it_equipmentId items)"
      and "\<forall>it \<in> set items. text_ok (it_equipmentId it) \<and>
             (\<exists>e. equipments d (it_equipmentId it) = Some e \<and> it_quantity it \<le> eq_stock e \<and>
                  eq_stock e \<le> 2147483647)"
  shows "fst (events_POST d newId b) = 201 \<and>
         events (snd (events_POST d newId b)) newId \<noteq> None \<and>
         equipmentEvent (snd (events_POST d newId b)) =
           equipmentEvent d @
           map (\<lambda>item. \<lparr>ee_equipmentId = it_equipmentId item, ee_eventId = newId,
                          ee_quantity = it_quantity item\<rparr>) items \<and>
         (\<forall>it \<in> set items.
            map_option eq_stock (equipments (snd (events_POST d newId b)) (it_equipmentId it)) =
            map_option (\<lambda>s. s - it_quantity it)
              (map_option eq_stock (equipments d (it_equipmentId it)))) \<and>
         (\<forall>e. e \<notin> it_equipmentId ` set items \<longrightarrow>
            equipments (snd (events_POST d newId b)) e = equipments d e)"
proof -
  obtain t where t: "eb_date b = Some t"
    using assms(1) by (auto simp: EventSchema_success_def)
  with assms(3) have date: "timestamp_ok t" by simp
  have positive: "\<forall>it \<in> set items. 0 \<le> it_quantity it"
    using assms(1,6)
    by (auto simp: EventSchema_success_def list_all_iff split: option.splits)
  let ?d1 = "d\<lparr>events := (events d)(newId \<mapsto>
             \<lparr>ev_title = eb_title b, ev_description = eb_description b, ev_date = t,
              ev_location = eb_location b, ev_status = ''upcoming'',
              ev_reportGenerated = False\<rparr>)\<rparr>"
  let ?rows = "map (\<lambda>item. \<lparr>ee_equipmentId = it_equipmentId item, ee_eventId = newId,
                          ee_quantity = it_quantity item\<rparr>) items"
  let ?d' = "shift_stock (\<lambda>i. - requested i items)
               (?d1\<lparr>equipmentEvent := equipmentEvent ?d1 @ ?rows\<rparr>)"
  have fresh: "\<forall>it \<in> set items. (it_equipmentId it, newId) \<notin> set (map ee_key (equipmentEvent ?d1))"
    using assms(4,5) by (auto simp: ee_key_def)
  have cover: "\<forall>it \<in> set items. text_ok (it_equipmentId it) \<and> 0 \<le> it_quantity it \<and>
             (\<exists>e. equipments ?d1 (it_equipmentId it) = Some e \<and> it_quantity it \<le> eq_stock e \<and>
                  eq_stock e \<le> 2147483647)"
    using assms(8) positive by simp
  have known: "items \<noteq> [] \<longrightarrow> events ?d1 newId \<noteq> None" by simp
  have "reserve_equipments newId items ?d1 = Inr ?d'"
    by (rule reserve_equipments_InrI [OF cover assms(7) fresh known])
  then have "events_POST_tx newId b d = Inr ?d'"
    unfolding events_POST_tx_Inr [OF t] using assms(2,4,6) date by simp
  then have res: "events_POST d newId b = (201, ?d')"
    using assms(1) by (simp add: events_POST_def)
  have stock: "map_option eq_stock (equipments ?d' (it_equipmentId it)) =
            map_option (\<lambda>s. s - it_quantity it)
              (map_option eq_stock (equipments d (it_equipmentId it)))"
    if "it \<in> set items" for it
    using requested_distinct [OF assms(7) that]
    by (simp add: shift_stock_def option.map_comp comp_def)
  have other: "equipments ?d' e = equipments d e" if "e \<notin> it_equipmentId ` set items" for e
    using requested_absent [OF that] by (simp add: shift_stock_def option.map_ident)
  show ?thesis
    unfolding res using stock other by (simp add: shift_stock_def)
qed

theorem events_POST_created_witness:
  "EventSchema_success
     (example_event [\<lparr>it_equipmentId = ''eq1'', it_quantity = 2\<rparr>,
                     \<lparr>it_equipmentId = ''eq2'', it_quantity = 1\<rparr>]) \<and>
   events example_db ''ev1'' = None \<and>
   map_option eq_stock (equipments example_db ''eq1'') = Some 5 \<and>
   map_option eq_stock (equipments example_db ''eq2'') = Some 3 \<and>
   fst (events_POST example_db ''ev1''
     (example_event [\<lparr>it_equipmentId = ''eq1'', it_quantity = 2\<rparr>,
                     \<lparr>it_equipmentId = ''eq2'', it_quantity = 1\<rparr>])) = 201 \<and>
   equipmentEvent (snd (events_POST example_db ''ev1''
     (example_event [\<lparr>it_equipmentId = ''eq1'', it_quantity = 2\<rparr>,
                     \<lparr>it_equipmentId = ''eq2'', it_quantity = 1\<rparr>]))) =
     [\<lparr>ee_equipmentId = ''eq1'', ee_eventId = ''ev1'', ee_quantity = 2\<rparr>,
      \<lparr>ee_equipmentId = ''eq2'', ee_eventId = ''ev1'', ee_quantity = 1\<rparr>] \<and>
   map_option eq_stock (equipments (snd (events_POST example_db ''ev1''
     (example_event [\<lparr>it_equipmentId = ''eq1'', it_quantity = 2\<rparr>,
                     \<lparr>it_equipmentId = ''eq2'', it_quantity = 1\<rparr>]))) ''eq1'') = Some 3 \<and>
   map_option eq_stock (equipments (snd (events_POST example_db ''ev1''
     (example_event [\<lparr>it_equipmentId = ''eq1'', it_quantity = 2\<rparr>,
                     \<lparr>it_equipmentId = ''eq2'', it_quantity = 1\<rparr>]))) ''eq2'') = Some 2"
proof -
  let ?items = "[\<lparr>it_equipmentId = ''eq1'', it_quantity = 2\<rparr>,
                 \<lparr>it_equipmentId = ''eq2'', it_quantity = 1\<rparr>]"
  have h1: "EventSchema_success (example_event ?items)"
    by (simp add: EventSchema_success_def example_event_def)
  have h2: "text_ok (eb_title (example_event ?items)) \<and>
            text_ok (eb_description (example_event ?items)) \<and>
            text_ok (eb_location (example_event ?items))"
    by (simp add: example_event_def text_ok_def)
  have h3: "\<forall>t. eb_date (example_event ?items) = Some t \<longrightarrow> timestamp_ok t"
    by (simp add: example_event_def timestamp_ok_def)
  have h4: "events example_db ''ev1'' = None"
    by (simp add: example_db_def)
  have h5: "\<forall>r \<in> set (equipmentEvent example_db). events example_db (ee_eventId r) \<noteq> None"
    by (simp add: example_db_def)
  have h6: "?items = (case eb_equipments (example_event ?items) of None \<Rightarrow> [] | Some xs \<Rightarrow> xs)"
    by (simp add: example_event_def)
  have h7: "distinct (map it_equipmentId ?items)"
    by simp
  have h8: "\<forall>it \<in> set ?items. text_ok (it_equipmentId it) \<and>
              (\<exists>e. equipments example_db (it_equipmentId it) = Some e \<and>
                 it_quantity it \<le> eq_stock e \<and> eq_stock e \<le> 2147483647)"
    by (simp add: example_db_def text_ok_def)
  have stocks: "map_option eq_stock (equipments example_db ''eq1'') = Some 5"
               "map_option eq_stock (equipments example_db ''eq2'') = Some 3"
               "equipmentEvent example_db = []"
    by (simp_all add: example_db_def)
  from events_POST_created [OF h1 h2 h3 h4 h5 h6 h7 h8] h1 h4 stocks
  show ?thesis by simp
qed

text \<open>
  Claim C5: a \<open>POST /api/events\<close> whose equipments list names an equipment that does not
  exist, or asks of an equipment more than its current stock, is answered with 400 and
  leaves the database exactly as it was: no event, no \<open>EquipmentEvent\<close> row and no
  stock change remain, since the transaction is abandoned as a whole.
\<close>

theorem events_POST_rejected:
  assumes "eb_equipments b = Some items"
      and "it \<in> set items"
      and "equipments d (it_equipmentId it) = None \<or>
           (\<exists>e. equipments d (it_equipmentId it) = Some e \<and> eq_stock e < it_quantity it)"
  shows "events_POST d newId b = (400, d)"
proof (cases "events_POST_tx newId b d")
  case (Inl err)
  then show ?thesis by (simp add: events_POST_def events_catch_400)
next
  case (Inr d')
  then obtain t where t: "eb_date b = Some t"
    by (auto simp: events_POST_tx_def split: option.splits)
  let ?d1 = "d\<lparr>events := (events d)(newId \<mapsto>
             \<lparr>ev_title = eb_title b, ev_description = eb_description b, ev_date = t,
              ev_location = eb_location b, ev_status = ''upcoming'',
              ev_reportGenerated = False\<rparr>)\<rparr>"
  from Inr have "reserve_equipments newId items ?d1 = Inr d'"
    unfolding events_POST_tx_Inr [OF t] using assms(1) by simp
  from reserve_equipments_InrD(1) [OF this]
  have "\<forall>x \<in> set items. \<exists>e. equipments d (it_equipmentId x) = Some e \<and>
          it_quantity x \<le> eq_stock e"
    by simp
  with assms(2,3) have False by fastforce
  then show ?thesis ..
qed

theorem events_POST_rejected_witness:
  "equipments example_db ''eq9'' = None \<and>
   events_POST example_db ''ev1''
     (example_event [\<lparr>it_equipmentId = ''eq2'', it_quantity = 1\<rparr>,
                     \<lparr>it_equipmentId = ''eq9'', it_quantity = 1\<rparr>]) = (400, example_db) \<and>
   map_option eq_stock (equipments example_db ''eq1'') = Some 5 \<and>
   events_POST example_db ''ev1''
     (example_event [\<lparr>it_equipmentId = ''eq2'', it_quantity = 1\<rparr>,
                     \<lparr>it_equipmentId = ''eq1'', it_quantity = 6\<rparr>]) = (400, example_db)"
proof -
  have missing: "equipments example_db ''eq9'' = None"
    by (simp add: example_db_def)
  have short: "\<exists>e. equipments example_db ''eq1'' = Some e \<and> eq_stock e < 6"
    by (simp add: example_db_def)
  have stock: "map_option eq_stock (equipments example_db ''eq1'') = Some 5"
    by (simp add: example_db_def)
  have a: "events_POST example_db ''ev1''
     (example_event [\<lparr>it_equipmentId = ''eq2'', it_quantity = 1\<rparr>,
                     \<lparr>it_equipmentId = ''eq9'', it_quantity = 1\<rparr>]) = (400, example_db)"
    using missing
    by (intro events_POST_rejected [where it = "\<lparr>it_equipmentId = ''eq9'', it_quantity = 1\<rparr>"
          and items = "[\<lparr>it_equipmentId = ''eq2'', it_quantity = 1\<rparr>,
                        \<lparr>it_equipmentId = ''eq9'', it_quantity = 1\<rparr>]"])
       (simp_all add: example_event_def)
  have b: "events_POST example_db ''ev1''
     (example_event [\<lparr>it_equipmentId = ''eq2'', it_quantity = 1\<rparr>,
                     \<lparr>it_equipmentId = ''eq1'', it_quantity = 6\<rparr>]) = (400, example_db)"
    using short
    by (intro events_POST_rejected [where it = "\<lparr>it_equipmentId = ''eq1'', it_quantity = 6\<rparr>"
          and items = "[\<lparr>it_equipmentId = ''eq2'', it_quantity = 1\<rparr>,
                        \<lparr>it_equipmentId = ''eq1'', it_quantity = 6\<rparr>]"])
       (simp_all add: example_event_def)
  from missing stock a b show ?thesis by simp
qed

section \<open>Deleting and updating an event\<close>

text \<open>
  Claim C2 asks that every deletion of an event gives the reserved quantities back, so that
  creating an event and deleting it again restores every stock. The single delete
  \<open>DELETE /api/events/[id]\<close> does; the bulk delete \<open>DELETE /api/events\<close> removes the
  event and, by the cascade, its reservations, and never touches the stock. Below, an
  event reserves two of five mixers: after the bulk delete the stock is still 3, after
  the single delete it is 5 again.
\<close>

theorem events_DELETE_keeps_stock:
  "map_option eq_stock (equipments example_db ''eq1'') = Some 5 \<and>
   fst (events_POST example_db ''ev1''
          (example_event [\<lparr>it_equipmentId = ''eq1'', it_quantity = 2\<rparr>])) = 201 \<and>
   map_option eq_stock (equipments (snd (events_POST example_db ''ev1''
          (example_event [\<lparr>it_equipmentId = ''eq1'', it_quantity = 2\<rparr>]))) ''eq1'') = Some 3 \<and>
   fst (events_DELETE (snd (events_POST example_db ''ev1''
          (example_event [\<lparr>it_equipmentId = ''eq1'', it_quantity = 2\<rparr>]))) [''ev1'']) = 200 \<and>
   events (snd (events_DELETE (snd (events_POST example_db ''ev1''
          (example_event [\<lparr>it_equipmentId = ''eq1'', it_quantity = 2\<rparr>]))) [''ev1''])) ''ev1'' = None \<and>
   equipmentEvent (snd (events_DELETE (snd (events_POST example_db ''ev1''
          (example_event [\<lparr>it_equipmentId = ''eq1'', it_quantity = 2\<rparr>]))) [''ev1''])) = [] \<and>
   map_option eq_stock (equipments (snd (events_DELETE (snd (events_POST example_db ''ev1''
          (example_event [\<lparr>it_equipmentId = ''eq1'', it_quantity = 2\<rparr>]))) [''ev1''])) ''eq1'') = Some 3 \<and>
   fst (events_id_DELETE (snd (events_POST example_db ''ev1''
          (example_event [\<lparr>it_equipmentId = ''eq1'', it_quantity = 2\<rparr>]))) ''ev1'') = 200 \<and>
   map_option eq_stock (equipments (snd (events_id_DELETE (snd (events_POST example_db ''ev1''
          (example_event [\<lparr>it_equipmentId = ''eq1'', it_quantity = 2\<rparr>]))) ''ev1'')) ''eq1'') = Some 5"
proof -
  let ?booked = "example_db\<lparr>
      equipments := (equipments example_db)(''eq1'' \<mapsto>
         \<lparr>eq_name = ''Mixer'', eq_category = ''Audio'', eq_stock = 3\<rparr>),
      events := (events example_db)(''ev1'' \<mapsto>
         \<lparr>ev_title = ''Gig'', ev_description = ''Live'', ev_date = 1000, ev_location = ''Hall'',
          ev_status = ''upcoming'', ev_reportGenerated = False\<rparr>),
      equipmentEvent := [\<lparr>ee_equipmentId = ''eq1'', ee_eventId = ''ev1'', ee_quantity = 2\<rparr>]\<rparr>"
  have post: "events_POST example_db ''ev1''
          (example_event [\<lparr>it_equipmentId = ''eq1'', it_quantity = 2\<rparr>]) = (201, ?booked)"
    by (simp add: EventSchema_success_def example_event_def example_db_def events_POST_def
          events_POST_tx_def events_create_def reserve_equipments_def equipments_findUnique_def
          equipmentEvent_createMany_def ee_key_def equipments_update_decrement_def
          text_ok_def timestamp_ok_def int4_def)
  have single: "fst (events_id_DELETE ?booked ''ev1'') = 200 \<and>
        map_option eq_stock (equipments (snd (events_id_DELETE ?booked ''ev1'')) ''eq1'') = Some 5"
    by (simp add: events_id_DELETE_def events_id_DELETE_tx_def equipmentEvent_findMany_def
          events_findUnique_def equipments_update_increment_def events_delete_def example_db_def
          text_ok_def int4_def)
  show ?thesis
    unfolding post using single
    by (simp add: events_DELETE_def events_deleteMany_def example_db_def text_ok_def)
qed

text \<open>
  Claim C6, as stated, fails. It says of every \<open>PUT /api/events/[id]\<close> with an equipments
  list on an existing event that the new quantities are validated and taken, so that each
  stock ends at old stock plus the quantity the event held minus the quantity requested.
  Below, the event holds two mixers, two more are in stock, and the new list asks for the
  mixer twice, one and two units. Both entries pass the schema and the validation loop;
  the unique index on (\<open>equipmentId\<close>, \<open>eventId\<close>) then rejects the rows, the handler
  answers 400 and the transaction is abandoned: the stock stays 2, where the claim
  computes 2 + 2 - 3 = 1.
\<close>

theorem events_id_PUT_duplicate_rejected:
  "EventSchema_id_success
     (example_event [\<lparr>it_equipmentId = ''eq1'', it_quantity = 1\<rparr>,
                     \<lparr>it_equipmentId = ''eq1'', it_quantity = 2\<rparr>]) \<and>
   events example_booked ''ev1'' \<noteq> None \<and>
   map_option eq_stock (equipments example_booked ''eq1'') = Some 2 \<and>
   reserved ''eq1'' (filter (\<lambda>r. ee_eventId r = ''ev1'') (equipmentEvent example_booked)) = 2 \<and>
   requested ''eq1'' [\<lparr>it_equipmentId = ''eq1'', it_quantity = 1\<rparr>,
                      \<lparr>it_equipmentId = ''eq1'', it_quantity = 2\<rparr>] = 3 \<and>
   events_id_PUT example_booked ''ev1''
     (example_event [\<lparr>it_equipmentId = ''eq1'', it_quantity = 1\<rparr>,
                     \<lparr>it_equipmentId = ''eq1'', it_quantity = 2\<rparr>]) = (400, example_booked)"
  by (simp add: EventSchema_id_success_def EventSchema_success_def example_event_def
        example_booked_def reserved_def requested_def events_id_PUT_def events_id_PUT_tx_def
        events_findUnique_def events_update_row_def equipmentEvent_findMany_def
        equipmentEvent_deleteMany_def equipments_update_increment_def reserve_equipments_def
        equipments_findUnique_def equipmentEvent_createMany_def ee_key_def events_catch_def
        text_ok_def timestamp_ok_def int4_def)

text \<open>
  Claim C6, amended: a \<open>PUT /api/events/[id]\<close> that supplies an equipments list gives the
  old reservations of the event back, deletes their rows, validates the new list against
  the restored stock, creates the new rows and takes the new quantities, in one
  transaction. When the handler accepts the update (200), every equipment's stock is the
  old stock plus the quantity the rows of this event held of it minus the quantity now
  requested of it, and the event's rows are the new list; when it does not, the database
  is as it was. On an existing event the update is refused with 400 whenever an item names
  no equipment or asks more than the restored stock. It is accepted when the body passes
  the schema and carries only values the database stores, the event exists, its rows name
  distinct existing equipment whose restored stock is a 32-bit value, and the new list
  names distinct existing equipment whose restored stock covers the request. Resubmitting
  the event's current reservations leaves every stock as it was.
\<close>

theorem events_id_PUT_stock:
  assumes "eb_equipments b = Some items"
  shows "(\<forall>d'. events_id_PUT d i b = (200, d') \<longrightarrow>
            (\<forall>e. map_option eq_stock (equipments d' e) =
                  map_option (\<lambda>s. s + reserved e (filter (\<lambda>r. ee_eventId r = i) (equipmentEvent d))
                                    - requested e items)
                    (map_option eq_stock (equipments d e))) \<and>
            equipmentEvent d' = filter (\<lambda>r. ee_eventId r \<noteq> i) (equipmentEvent d) @
               map (\<lambda>item. \<lparr>ee_equipmentId = it_equipmentId item, ee_eventId = i,
                              ee_quantity = it_quantity item\<rparr>) items) \<and>
         (fst (events_id_PUT d i b) \<noteq> 200 \<longrightarrow> snd (events_id_PUT d i b) = d) \<and>
         (events d i \<noteq> None \<and>
          (\<exists>it \<in> set items. equipments d (it_equipmentId it) = None \<or>
             (\<exists>e. equipments d (it_equipmentId it) = Some e \<and>
                eq_stock e + reserved (it_equipmentId it)
                               (filter (\<lambda>r. ee_eventId r = i) (equipmentEvent d))
                  < it_quantity it))
            \<longrightarrow> events_id_PUT d i b = (400, d)) \<and>
         (EventSchema_id_success b \<and> text_ok i \<and> events d i \<noteq> None \<and>
          text_ok (eb_title b) \<and> text_ok (eb_description b) \<and> text_ok (eb_location b) \<and>
          (\<forall>t. eb_date b = Some t \<longrightarrow> timestamp_ok t) \<and>
          distinct (map ee_equipmentId (filter (\<lambda>r. ee_eventId r = i) (equipmentEvent d))) \<and>
          (\<forall>r \<in> set (filter (\<lambda>r. ee_eventId r = i) (equipmentEvent d)).
             \<exists>e. equipments d (ee_equipmentId r) = Some e \<and> int4 (eq_stock e + ee_quantity r)) \<and>
          distinct (map it_equipmentId items) \<and>
          (\<forall>it \<in> set items. text_ok (it_equipmentId it) \<and>
             (\<exists>e. equipments d (it_equipmentId it) = Some e \<and>
                it_quantity it \<le> eq_stock e +
                  reserved (it_equipmentId it) (filter (\<lambda>r. ee_eventId r = i) (equipmentEvent d)) \<and>
                eq_stock e +
                  reserved (it_equipmentId it) (filter (\<lambda>r. ee_eventId r = i) (equipmentEvent d))
                  \<le> 2147483647))
            \<longrightarrow> fst (events_id_PUT d i b) = 200) \<and>
         (items = map row_item (filter (\<lambda>r. ee_eventId r = i) (equipmentEvent d)) \<longrightarrow>
            (\<forall>e. map_option eq_stock (equipments (snd (events_id_PUT d i b)) e) =
                  map_option eq_stock (equipments d e)))"
proof -
  let ?old = "filter (\<lambda>r. ee_eventId r = i) (equipmentEvent d)"
  have accepted: "(\<forall>e. map_option eq_stock (equipments d' e) =
                  map_option (\<lambda>s. s + reserved e ?old - requested e items)
                    (map_option eq_stock (equipments d e))) \<and>
            equipmentEvent d' = filter (\<lambda>r. ee_eventId r \<noteq> i) (equipmentEvent d) @
               map (\<lambda>item. \<lparr>ee_equipmentId = it_equipmentId item, ee_eventId = i,
                              ee_quantity = it_quantity item\<rparr>) items"
    if ok: "events_id_PUT d i b = (200, d')" for d'
  proof -
    from ok events_id_PUT_cases [of d i b] have tx: "events_id_PUT_tx i b d = Inr d'" by auto
    from events_id_PUT_tx_InrD(1,2) [OF tx assms] show ?thesis by simp
  qed
  have kept: "snd (events_id_PUT d i b) = d" if "fst (events_id_PUT d i b) \<noteq> 200"
    using that events_id_PUT_cases [of d i b] by auto
  have refused: "events_id_PUT d i b = (400, d)"
    if ev: "events d i \<noteq> None"
    and bad: "\<exists>it \<in> set items. equipments d (it_equipmentId it) = None \<or>
             (\<exists>e. equipments d (it_equipmentId it) = Some e \<and>
                eq_stock e + reserved (it_equipmentId it) ?old < it_quantity it)"
  proof (cases "fst (events_id_PUT d i b) = 200")
    case True
    with events_id_PUT_cases [of d i b] obtain d' where "events_id_PUT_tx i b d = Inr d'"
      by auto
    from events_id_PUT_tx_InrD(3) [OF this assms] bad have False by fastforce
    then show ?thesis ..
  next
    case False
    with ev show ?thesis by (rule events_id_PUT_refused)
  qed
  have granted: "fst (events_id_PUT d i b) = 200"
    if "EventSchema_id_success b \<and> text_ok i \<and> events d i \<noteq> None \<and>
          text_ok (eb_title b) \<and> text_ok (eb_description b) \<and> text_ok (eb_location b) \<and>
          (\<forall>t. eb_date b = Some t \<longrightarrow> timestamp_ok t) \<and>
          distinct (map ee_equipmentId ?old) \<and>
          (\<forall>r \<in> set ?old.
             \<exists>e. equipments d (ee_equipmentId r) = Some e \<and> int4 (eq_stock e + ee_quantity r)) \<and>
          distinct (map it_equipmentId items) \<and>
          (\<forall>it \<in> set items. text_ok (it_equipmentId it) \<and>
             (\<exists>e. equipments d (it_equipmentId it) = Some e \<and>
                it_quantity it \<le> eq_stock e + reserved (it_equipmentId it) ?old \<and>
                eq_stock e + reserved (it_equipmentId it) ?old \<le> 2147483647))"
    using that by (intro events_id_PUT_success [OF _ assms]) blast+
  have again: "map_option eq_stock (equipments (snd (events_id_PUT d i b)) e) =
          map_option eq_stock (equipments d e)"
    if same: "items = map row_item ?old" for e
  proof (cases "fst (events_id_PUT d i b) = 200")
    case True
    then have "events_id_PUT d i b = (200, snd (events_id_PUT d i b))"
      by (simp add: prod_eq_iff)
    from accepted [OF this] show ?thesis
      by (simp add: same requested_row_item option.map_ident)
  next
    case False
    then show ?thesis by (simp add: kept)
  qed
  from accepted kept refused granted again show ?thesis by blast
qed

theorem events_id_PUT_stock_witness:
  "fst (events_id_PUT example_booked ''ev1''
          (example_event [\<lparr>it_equipmentId = ''eq1'', it_quantity = 4\<rparr>])) = 200 \<and>
   map_option eq_stock (equipments example_booked ''eq1'') = Some 2 \<and>
   map_option eq_stock (equipments example_booked ''eq2'') = Some 2 \<and>
   map_option eq_stock (equipments (snd (events_id_PUT example_booked ''ev1''
          (example_event [\<lparr>it_equipmentId = ''eq1'', it_quantity = 4\<rparr>]))) ''eq1'') = Some 0 \<and>
   map_option eq_stock (equipments (snd (events_id_PUT example_booked ''ev1''
          (example_event [\<lparr>it_equipmentId = ''eq1'', it_quantity = 4\<rparr>]))) ''eq2'') = Some 3 \<and>
   equipmentEvent (snd (events_id_PUT example_booked ''ev1''
          (example_event [\<lparr>it_equipmentId = ''eq1'', it_quantity = 4\<rparr>]))) =
     [\<lparr>ee_equipmentId = ''eq1'', ee_eventId = ''ev2'', ee_quantity = 1\<rparr>,
      \<lparr>ee_equipmentId = ''eq1'', ee_eventId = ''ev1'', ee_quantity = 4\<rparr>] \<and>
   events_id_PUT example_booked ''ev1''
          (example_event [\<lparr>it_equipmentId = ''eq1'', it_quantity = 5\<rparr>]) = (400, example_booked) \<and>
   map_option eq_stock (equipments (snd (events_id_PUT example_booked ''ev1''
          (example_event [\<lparr>it_equipmentId = ''eq1'', it_quantity = 2\<rparr>,
                          \<lparr>it_equipmentId = ''eq2'', it_quantity = 1\<rparr>]))) ''eq1'') = Some 2 \<and>
   map_option eq_stock (equipments (snd (events_id_PUT example_booked ''ev1''
          (example_event [\<lparr>it_equipmentId = ''eq1'', it_quantity = 2\<rparr>,
                          \<lparr>it_equipmentId = ''eq2'', it_quantity = 1\<rparr>]))) ''eq2'') = Some 2"
proof -
  let ?more = "[\<lparr>it_equipmentId = ''eq1'', it_quantity = 4\<rparr>]"
  let ?much = "[\<lparr>it_equipmentId = ''eq1'', it_quantity = 5\<rparr>]"
  let ?same = "[\<lparr>it_equipmentId = ''eq1'', it_quantity = 2\<rparr>,
                \<lparr>it_equipmentId = ''eq2'', it_quantity = 1\<rparr>]"
  have list: "eb_equipments (example_event items) = Some items" for items
    by (simp add: example_event_def)
  have old: "filter (\<lambda>r. ee_eventId r = ''ev1'') (equipmentEvent example_booked) =
               [\<lparr>ee_equipmentId = ''eq1'', ee_eventId = ''ev1'', ee_quantity = 2\<rparr>,
                \<lparr>ee_equipmentId = ''eq2'', ee_eventId = ''ev1'', ee_quantity = 1\<rparr>]"
    by (simp add: example_booked_def)
  have others: "filter (\<lambda>r. ee_eventId r \<noteq> ''ev1'') (equipmentEvent example_booked) =
               [\<lparr>ee_equipmentId = ''eq1'', ee_eventId = ''ev2'', ee_quantity = 1\<rparr>]"
    by (simp add: example_booked_def)
  have stocks: "map_option eq_stock (equipments example_booked ''eq1'') = Some 2"
               "map_option eq_stock (equipments example_booked ''eq2'') = Some 2"
    by (simp_all add: example_booked_def)
  have exists: "events example_booked ''ev1'' \<noteq> None"
    by (simp add: example_booked_def)
  have cover: "EventSchema_id_success (example_event ?more) \<and> text_ok ''ev1'' \<and>
     events example_booked ''ev1'' \<noteq> None \<and>
     text_ok (eb_title (example_event ?more)) \<and> text_ok (eb_description (example_event ?more)) \<and>
     text_ok (eb_location (example_event ?more)) \<and>
     (\<forall>t. eb_date (example_event ?more) = Some t \<longrightarrow> timestamp_ok t) \<and>
     distinct (map ee_equipmentId
       (filter (\<lambda>r. ee_eventId r = ''ev1'') (equipmentEvent example_booked))) \<and>
     (\<forall>r \<in> set (filter (\<lambda>r. ee_eventId r = ''ev1'') (equipmentEvent example_booked)).
        \<exists>e. equipments example_booked (ee_equipmentId r) = Some e \<and>
             int4 (eq_stock e + ee_quantity r)) \<and>
     distinct (map it_equipmentId ?more) \<and>
     (\<forall>it \<in> set ?more. text_ok (it_equipmentId it) \<and>
        (\<exists>e. equipments example_booked (it_equipmentId it) = Some e \<and>
           it_quantity it \<le> eq_stock e +
             reserved (it_equipmentId it)
               (filter (\<lambda>r. ee_eventId r = ''ev1'') (equipmentEvent example_booked)) \<and>
           eq_stock e +
             reserved (it_equipmentId it)
               (filter (\<lambda>r. ee_eventId r = ''ev1'') (equipmentEvent example_booked))
             \<le> 2147483647))"
    unfolding old
    by (simp add: EventSchema_id_success_def EventSchema_success_def example_event_def
          example_booked_def reserved_def text_ok_def timestamp_ok_def int4_def)
  have short: "\<exists>it \<in> set ?much. equipments example_booked (it_equipmentId it) = None \<or>
     (\<exists>e. equipments example_booked (it_equipmentId it) = Some e \<and>
        eq_stock e + reserved (it_equipmentId it)
                       (filter (\<lambda>r. ee_eventId r = ''ev1'') (equipmentEvent example_booked))
          < it_quantity it)"
    unfolding old by (simp add: example_booked_def reserved_def)
  note more = events_id_PUT_stock [OF list [of ?more], of example_booked "''ev1''"]
  note much = events_id_PUT_stock [OF list [of ?much], of example_booked "''ev1''"]
  note same = events_id_PUT_stock [OF list [of ?same], of example_booked "''ev1''"]
  have accepted: "fst (events_id_PUT example_booked ''ev1'' (example_event ?more)) = 200"
    using more cover by blast
  then have "events_id_PUT example_booked ''ev1'' (example_event ?more) =
      (200, snd (events_id_PUT example_booked ''ev1'' (example_event ?more)))"
    by (simp add: prod_eq_iff)
  with more have after:
    "\<forall>e. map_option eq_stock
            (equipments (snd (events_id_PUT example_booked ''ev1'' (example_event ?more))) e) =
          map_option (\<lambda>s. s + reserved e
                                 (filter (\<lambda>r. ee_eventId r = ''ev1'') (equipmentEvent example_booked))
                            - requested e ?more)
            (map_option eq_stock (equipments example_booked e))"
    "equipmentEvent (snd (events_id_PUT example_booked ''ev1'' (example_event ?more))) =
       filter (\<lambda>r. ee_eventId r \<noteq> ''ev1'') (equipmentEvent example_booked) @
       map (\<lambda>item. \<lparr>ee_equipmentId = it_equipmentId item, ee_eventId = ''ev1'',
                      ee_quantity = it_quantity item\<rparr>) ?more"
    by blast+
  have refused: "events_id_PUT example_booked ''ev1'' (example_event ?much) = (400, example_booked)"
    using much exists short by blast
  have "?same = map row_item
                  (filter (\<lambda>r. ee_eventId r = ''ev1'') (equipmentEvent example_booked))"
    unfolding old by (simp add: row_item_def)
  with same have again:
    "\<forall>e. map_option eq_stock
            (equipments (snd (events_id_PUT example_booked ''ev1'' (example_event ?same))) e) =
          map_option eq_stock (equipments example_booked e)"
    by blast
  show ?thesis
    using accepted after(1) [rule_format, of "''eq1''"] after(1) [rule_format, of "''eq2''"]
      after(2) refused again [rule_format, of "''eq1''"] again [rule_format, of "''eq2''"]
    unfolding old others stocks
    by (simp add: reserved_def requested_def)
qed

section \<open>Reporting and repairing damaged equipment\<close>

text \<open>
  Claim C9, as stated, fails. It has every \<open>POST /api/damaged-equipments\<close> that names a
  missing equipment answered with 404. The schema is checked before the equipment is
  looked up: below, the named equipment does not exist and the quantity is 0, and the
  handler answers 400.
\<close>

theorem damaged_equipments_POST_invalid_before_missing:
  "equipments example_db ''eq9'' = None \<and>
   damaged_equipments_POST example_db ''dm1'' 100 (example_report ''eq9'' 0) = (400, example_db)"
  by (simp add: damaged_equipments_POST_def DamagedEquipmentSchema_success_def
        example_report_def example_db_def)

text \<open>
  Claim C9, amended: for a \<open>POST /api/damaged-equipments\<close> whose body passes the schema
  and whose equipment key is free of the character of code 0, the handler answers 404
  when the named equipment does not exist; it answers 400 when the requested quantity
  exceeds the equipment's stock; it answers 201 when the equipment exists, its stock, a
  32-bit value, covers the quantity, the description can be stored and the generated key
  is new; and whenever it answers 201 it has created the record with status \<open>pending\<close>
  and changed nothing else: the equipment table, and so every stock, is as before.
\<close>

theorem damaged_equipments_POST_outcomes:
  "(DamagedEquipmentSchema_success b \<and> text_ok (rb_equipmentId b) \<and>
    equipments d (rb_equipmentId b) = None
      \<longrightarrow> damaged_equipments_POST d newId now b = (404, d)) \<and>
   (\<forall>e. text_ok (rb_equipmentId b) \<and> equipments d (rb_equipmentId b) = Some e \<and>
        eq_stock e < rb_quantity b
      \<longrightarrow> damaged_equipments_POST d newId now b = (400, d)) \<and>
   (\<forall>e. DamagedEquipmentSchema_success b \<and> text_ok (rb_equipmentId b) \<and>
        equipments d (rb_equipmentId b) = Some e \<and>
        rb_quantity b \<le> eq_stock e \<and> eq_stock e \<le> 2147483647 \<and>
        text_option_ok (rb_description b) \<and> damagedEquipment d newId = None
      \<longrightarrow> fst (damaged_equipments_POST d newId now b) = 201) \<and>
   (fst (damaged_equipments_POST d newId now b) = 201
      \<longrightarrow> equipments (snd (damaged_equipments_POST d newId now b)) = equipments d \<and>
          events (snd (damaged_equipments_POST d newId now b)) = events d \<and>
          equipmentEvent (snd (damaged_equipments_POST d newId now b)) = equipmentEvent d \<and>
          damagedEquipment (snd (damaged_equipments_POST d newId now b)) =
            (damagedEquipment d)(newId \<mapsto>
               \<lparr>de_equipmentId = rb_equipmentId b, de_quantity = rb_quantity b,
                de_description =
                  (case rb_description b of None \<Rightarrow> None
                   | Some t \<Rightarrow> if t = [] then None else Some t),
                de_repairStatus = pending, de_reportedAt = now, de_repairedAt = None\<rparr>))"
proof (intro conjI allI impI)
  assume "DamagedEquipmentSchema_success b \<and> text_ok (rb_equipmentId b) \<and>
          equipments d (rb_equipmentId b) = None"
  then show "damaged_equipments_POST d newId now b = (404, d)"
    by (simp add: damaged_equipments_POST_def equipments_findUnique_def)
next
  fix e
  assume "text_ok (rb_equipmentId b) \<and> equipments d (rb_equipmentId b) = Some e \<and>
          eq_stock e < rb_quantity b"
  then show "damaged_equipments_POST d newId now b = (400, d)"
    by (simp add: damaged_equipments_POST_def equipments_findUnique_def)
next
  fix e
  assume h: "DamagedEquipmentSchema_success b \<and> text_ok (rb_equipmentId b) \<and>
        equipments d (rb_equipmentId b) = Some e \<and>
        rb_quantity b \<le> eq_stock e \<and> eq_stock e \<le> 2147483647 \<and>
        text_option_ok (rb_description b) \<and> damagedEquipment d newId = None"
  then have "int4 (rb_quantity b)"
    by (simp add: DamagedEquipmentSchema_success_def int4_def)
  moreover from h have "text_option_ok (description_or_null (rb_description b))"
    by (auto simp: description_or_null_def text_option_ok_def split: option.splits)
  ultimately show "fst (damaged_equipments_POST d newId now b) = 201"
    using h by (simp add: damaged_equipments_POST_def equipments_findUnique_def
          damagedEquipment_create_def)
next
  assume "fst (damaged_equipments_POST d newId now b) = 201"
  then have created: "equipments (snd (damaged_equipments_POST d newId now b)) = equipments d \<and>
          events (snd (damaged_equipments_POST d newId now b)) = events d \<and>
          equipmentEvent (snd (damaged_equipments_POST d newId now b)) = equipmentEvent d \<and>
          damagedEquipment (snd (damaged_equipments_POST d newId now b)) =
            (damagedEquipment d)(newId \<mapsto>
               \<lparr>de_equipmentId = rb_equipmentId b, de_quantity = rb_quantity b,
                de_description =
                  (case rb_description b of None \<Rightarrow> None
                   | Some t \<Rightarrow> if t = [] then None else Some t),
                de_repairStatus = pending, de_reportedAt = now, de_repairedAt = None\<rparr>)"
    by (auto simp: damaged_equipments_POST_def equipments_findUnique_def
          damagedEquipment_create_def damaged_catch_def handlePrismaError_def
          invalid_text_def out_of_range_def description_or_null_def
          split: option.splits if_splits sum.splits)
  from created show "equipments (snd (damaged_equipments_POST d newId now b)) = equipments d" by simp
  from created show "events (snd (damaged_equipments_POST d newId now b)) = events d" by simp
  from created show "equipmentEvent (snd (damaged_equipments_POST d newId now b)) = equipmentEvent d"
    by simp
  from created show "damagedEquipment (snd (damaged_equipments_POST d newId now b)) =
            (damagedEquipment d)(newId \<mapsto>
               \<lparr>de_equipmentId = rb_equipmentId b, de_quantity = rb_quantity b,
                de_description =
                  (case rb_description b of None \<Rightarrow> None
                   | Some t \<Rightarrow> if t = [] then None else Some t),
                de_repairStatus = pending, de_reportedAt = now, de_repairedAt = None\<rparr>)" by simp
qed

theorem damaged_equipments_POST_outcomes_witness:
  "damaged_equipments_POST example_db ''dm1'' 100 (example_report ''eq9'' 1) = (404, example_db) \<and>
   damaged_equipments_POST example_db ''dm1'' 100 (example_report ''eq1'' 6) = (400, example_db) \<and>
   fst (damaged_equipments_POST example_db ''dm1'' 100 (example_report ''eq1'' 2)) = 201 \<and>
   equipments (snd (damaged_equipments_POST example_db ''dm1'' 100 (example_report ''eq1'' 2))) =
     equipments example_db \<and>
   map_option de_repairStatus
     (damagedEquipment (snd (damaged_equipments_POST example_db ''dm1'' 100
        (example_report ''eq1'' 2))) ''dm1'') = Some pending"
proof -
  have valid: "DamagedEquipmentSchema_success (example_report ''eq9'' 1)"
              "DamagedEquipmentSchema_success (example_report ''eq1'' 2)"
    by (simp_all add: DamagedEquipmentSchema_success_def example_report_def)
  have keys: "text_ok (rb_equipmentId (example_report ''eq9'' 1))"
             "text_ok (rb_equipmentId (example_report ''eq1'' 6))"
             "text_ok (rb_equipmentId (example_report ''eq1'' 2))"
    by (simp_all add: example_report_def text_ok_def)
  have missing: "equipments example_db (rb_equipmentId (example_report ''eq9'' 1)) = None"
    by (simp add: example_db_def example_report_def)
  have short: "equipments example_db (rb_equipmentId (example_report ''eq1'' 6)) =
                 Some \<lparr>eq_name = ''Mixer'', eq_category = ''Audio'', eq_stock = 5\<rparr> \<and>
               eq_stock \<lparr>eq_name = ''Mixer'', eq_category = ''Audio'', eq_stock = 5\<rparr>
                 < rb_quantity (example_report ''eq1'' 6)"
    by (simp add: example_db_def example_report_def)
  have enough: "equipments example_db (rb_equipmentId (example_report ''eq1'' 2)) =
                 Some \<lparr>eq_name = ''Mixer'', eq_category = ''Audio'', eq_stock = 5\<rparr> \<and>
               rb_quantity (example_report ''eq1'' 2)
                 \<le> eq_stock \<lparr>eq_name = ''Mixer'', eq_category = ''Audio'', eq_stock = 5\<rparr> \<and>
               eq_stock \<lparr>eq_name = ''Mixer'', eq_category = ''Audio'', eq_stock = 5\<rparr>
                 \<le> 2147483647 \<and>
               text_option_ok (rb_description (example_report ''eq1'' 2)) \<and>
               damagedEquipment example_db ''dm1'' = None"
    by (simp add: example_db_def example_report_def text_option_ok_def)
  have a: "damaged_equipments_POST example_db ''dm1'' 100 (example_report ''eq9'' 1) = (404, example_db)"
    using damaged_equipments_POST_outcomes [of "example_report ''eq9'' 1" example_db "''dm1''" 100]
      valid(1) keys(1) missing by blast
  have b: "damaged_equipments_POST example_db ''dm1'' 100 (example_report ''eq1'' 6) = (400, example_db)"
    using damaged_equipments_POST_outcomes [of "example_report ''eq1'' 6" example_db "''dm1''" 100]
      keys(2) short by blast
  have c: "fst (damaged_equipments_POST example_db ''dm1'' 100 (example_report ''eq1'' 2)) = 201"
    using damaged_equipments_POST_outcomes [of "example_report ''eq1'' 2" example_db "''dm1''" 100]
      valid(2) keys(3) enough by blast
  with damaged_equipments_POST_outcomes [of "example_report ''eq1'' 2" example_db "''dm1''" 100]
  have d: "equipments (snd (damaged_equipments_POST example_db ''dm1'' 100 (example_report ''eq1'' 2))) =
             equipments example_db"
    and e: "damagedEquipment (snd (damaged_equipments_POST example_db ''dm1'' 100
              (example_report ''eq1'' 2))) =
            (damagedEquipment example_db)(''dm1'' \<mapsto>
               \<lparr>de_equipmentId = rb_equipmentId (example_report ''eq1'' 2),
                de_quantity = rb_quantity (example_report ''eq1'' 2),
                de_description =
                  (case rb_description (example_report ''eq1'' 2) of None \<Rightarrow> None
                   | Some t \<Rightarrow> if t = [] then None else Some t),
                de_repairStatus = pending, de_reportedAt = 100, de_repairedAt = None\<rparr>)"
    by blast+
  from a b c d show ?thesis by (simp add: e)
qed

text \<open>
  Claim C3 asks that reporting a damage takes the damaged quantity out of the stock and
  completing the repair puts it back, so that report and completion together leave the
  stock as it was. The report handler checks the stock and records the quantity but
  never decrements; the completion increments (its comment: restore stock back to
  equipment). Below, two of five mixers are reported and repaired: the stock is 5 after
  the report and 7 after the completion.
\<close>

theorem report_then_complete_adds_stock:
  "map_option eq_stock (equipments example_db ''eq1'') = Some 5 \<and>
   fst (damaged_equipments_POST example_db ''dm1'' 100 (example_report ''eq1'' 2)) = 201 \<and>
   map_option eq_stock
     (equipments (snd (damaged_equipments_POST example_db ''dm1'' 100 (example_report ''eq1'' 2)))
        ''eq1'') = Some 5 \<and>
   fst (damaged_equipments_id_PUT
          (snd (damaged_equipments_POST example_db ''dm1'' 100 (example_report ''eq1'' 2)))
          ''dm1'' 200 (example_status ''completed'')) = 200 \<and>
   map_option eq_stock
     (equipments (snd (damaged_equipments_id_PUT
          (snd (damaged_equipments_POST example_db ''dm1'' 100 (example_report ''eq1'' 2)))
          ''dm1'' 200 (example_status ''completed''))) ''eq1'') = Some 7"
  by (simp add: damaged_equipments_POST_def damaged_equipments_id_PUT_def
        DamagedEquipmentSchema_success_def UpdateDamagedEquipmentSchema_success_def
        RepairStatus_enum_def damagedEquipment_create_def equipments_update_increment_def
        equipments_findUnique_def damagedEquipment_findUnique_def damagedEquipment_update_row_def
        description_or_null_def text_option_ok_def int4_option_def text_ok_def int4_def
        example_db_def example_report_def example_status_def)

text \<open>
  Claim C4, as stated, fails. It has every \<open>PUT /api/damaged-equipments/[id]\<close> on an
  existing record whose body sets \<open>repairStatus\<close> to \<open>completed\<close> increment the stock and
  set \<open>repairedAt\<close>. A body that also carries the quantity 0 sets that status, fails the
  schema and is answered with 400: the stock and the record stay as they were.
\<close>

theorem completed_with_quantity_zero_refused:
  "ub_repairStatus (example_completed 0) = Some ''completed'' \<and>
   damagedEquipment example_repaired ''dm1'' \<noteq> None \<and>
   damaged_equipments_id_PUT example_repaired ''dm1'' 300 (example_completed 0) =
     (400, example_repaired)"
  by (simp add: damaged_equipments_id_PUT_def UpdateDamagedEquipmentSchema_success_def
        example_completed_def example_repaired_def)

text \<open>
  Claim C4, amended: a \<open>PUT /api/damaged-equipments/[id]\<close> on an existing record whose
  body passes the schema, sets \<open>repairStatus\<close> to \<open>completed\<close> and carries only values
  the database stores (a 32-bit quantity, a description without the character of code 0)
  is answered with 200 when the incremented stock is still a 32-bit value: it increments
  the stock of the linked equipment by the quantity stored in the record, leaves every
  other equipment alone, and sets the record's status to \<open>completed\<close> and its
  \<open>repairedAt\<close> to the time of the request.
\<close>

theorem damaged_equipments_id_PUT_completed:
  assumes "UpdateDamagedEquipmentSchema_success b"
      and "ub_repairStatus b = Some ''completed''"
      and "int4_option (ub_quantity b)" and "text_option_ok (ub_description b)"
      and "text_ok i"
      and "damagedEquipment d i = Some existing"
      and "equipments d (de_equipmentId existing) = Some e"
      and "int4 (eq_stock e + de_quantity existing)"
  shows "fst (damaged_equipments_id_PUT d i now b) = 200 \<and>
         equipments (snd (damaged_equipments_id_PUT d i now b)) =
           (equipments d)(de_equipmentId existing \<mapsto>
              e\<lparr>eq_stock := eq_stock e + de_quantity existing\<rparr>) \<and>
         map_option de_repairStatus (damagedEquipment (snd (damaged_equipments_id_PUT d i now b)) i)
           = Some completed \<and>
         map_option de_repairedAt (damagedEquipment (snd (damaged_equipments_id_PUT d i now b)) i)
           = Some (Some now)"
  unfolding PUT_completed_step [OF assms]
  by (simp add: updateData_completed [OF assms(2)])

theorem damaged_equipments_id_PUT_completed_witness:
  "UpdateDamagedEquipmentSchema_success (example_status ''completed'') \<and>
   map_option de_repairStatus
     (damagedEquipment (snd (damaged_equipments_POST example_db ''dm1'' 100
        (example_report ''eq1'' 2))) ''dm1'') = Some pending \<and>
   fst (damaged_equipments_id_PUT
          (snd (damaged_equipments_POST example_db ''dm1'' 100 (example_report ''eq1'' 2)))
          ''dm1'' 200 (example_status ''completed'')) = 200 \<and>
   map_option eq_stock
     (equipments (snd (damaged_equipments_id_PUT
          (snd (damaged_equipments_POST example_db ''dm1'' 100 (example_report ''eq1'' 2)))
          ''dm1'' 200 (example_status ''completed''))) ''eq1'') = Some (5 + 2) \<and>
   map_option de_repairedAt
     (damagedEquipment (snd (damaged_equipments_id_PUT
          (snd (damaged_equipments_POST example_db ''dm1'' 100 (example_report ''eq1'' 2)))
          ''dm1'' 200 (example_status ''completed''))) ''dm1'') = Some (Some 200)"
proof -
  let ?reported = "snd (damaged_equipments_POST example_db ''dm1'' 100 (example_report ''eq1'' 2))"
  let ?row = "\<lparr>de_equipmentId = ''eq1'', de_quantity = 2, de_description = None,
               de_repairStatus = pending, de_reportedAt = 100, de_repairedAt = None\<rparr>"
  let ?mixer = "\<lparr>eq_name = ''Mixer'', eq_category = ''Audio'', eq_stock = 5\<rparr>"
  have h1: "UpdateDamagedEquipmentSchema_success (example_status ''completed'')"
    by (simp add: UpdateDamagedEquipmentSchema_success_def example_status_def RepairStatus_enum_def)
  have h2: "ub_repairStatus (example_status ''completed'') = Some ''completed''"
    by (simp add: example_status_def)
  have h3: "int4_option (ub_quantity (example_status ''completed''))"
    by (simp add: example_status_def int4_option_def)
  have h4: "text_option_ok (ub_description (example_status ''completed''))"
    by (simp add: example_status_def text_option_ok_def)
  have h5: "text_ok ''dm1''"
    by (simp add: text_ok_def)
  have reported: "damaged_equipments_POST example_db ''dm1'' 100 (example_report ''eq1'' 2) =
      (201, example_db\<lparr>damagedEquipment := (damagedEquipment example_db)(''dm1'' \<mapsto> ?row)\<rparr>)"
    by (simp add: damaged_equipments_POST_def DamagedEquipmentSchema_success_def
          damagedEquipment_create_def equipments_findUnique_def example_db_def example_report_def
          description_or_null_def text_option_ok_def text_ok_def int4_def)
  have h6: "damagedEquipment ?reported ''dm1'' = Some ?row"
    unfolding reported by simp
  have h7: "equipments ?reported (de_equipmentId ?row) = Some ?mixer"
    unfolding reported by (simp add: example_db_def)
  have h8: "int4 (eq_stock ?mixer + de_quantity ?row)"
    by (simp add: int4_def)
  from damaged_equipments_id_PUT_completed [OF h1 h2 h3 h4 h5 h6 h7 h8, of 200] h1 h6
  show ?thesis by simp
qed

text \<open>
  Claim C7, as stated, fails. It asks that an accepted update keeps the repair status or
  moves it one step along pending, in_progress, completed, and that a completed record
  stays completed. The handler compares the new status with nothing: below, an update
  that names \<open>pending\<close> is accepted on a completed record and stored.
\<close>

theorem completed_record_reopened:
  "map_option de_repairStatus (damagedEquipment example_repaired ''dm1'') = Some completed \<and>
   fst (damaged_equipments_id_PUT example_repaired ''dm1'' 300 (example_status ''pending'')) = 200 \<and>
   map_option de_repairStatus
     (damagedEquipment (snd (damaged_equipments_id_PUT example_repaired ''dm1'' 300
        (example_status ''pending''))) ''dm1'') = Some pending"
  by (simp add: damaged_equipments_id_PUT_def UpdateDamagedEquipmentSchema_success_def
        damagedEquipment_findUnique_def damagedEquipment_update_row_def
        RepairStatus_enum_def updateData_def example_repaired_def example_status_def
        text_ok_def int4_option_def text_option_ok_def)

text \<open>
  Claim C7, amended: the repair status takes the values pending, in_progress and
  completed, and for every accepted update of a record the new status is the one the
  body names, whichever of the three it is and whatever the current status, or the
  current status when the body names none.
\<close>

theorem damaged_equipments_id_PUT_status:
  assumes "fst (damaged_equipments_id_PUT d i now b) = 200"
  shows "map_option de_repairStatus (damagedEquipment (snd (damaged_equipments_id_PUT d i now b)) i) =
           (case ub_repairStatus b of
              None \<Rightarrow> map_option de_repairStatus (damagedEquipment d i)
            | Some s \<Rightarrow> RepairStatus_enum s) \<and>
         map_option de_repairStatus (damagedEquipment (snd (damaged_equipments_id_PUT d i now b)) i)
           \<noteq> None"
proof -
  have valid: "UpdateDamagedEquipmentSchema_success b"
    using assms by (auto simp: damaged_equipments_id_PUT_def split: if_splits)
  from assms valid obtain existing where key: "text_ok i"
    and found: "damagedEquipment d i = Some existing"
    by (auto simp: damaged_equipments_id_PUT_def damagedEquipment_findUnique_def
          damaged_catch_not_200 split: option.splits if_splits)
  let ?step = "if ub_repairStatus b = Some ''completed''
               then equipments_update_increment (de_equipmentId existing) (de_quantity existing) d
               else Inr d"
  from assms valid key found obtain d1 where step: "?step = Inr d1"
    by (cases ?step)
       (auto simp: damaged_equipments_id_PUT_def damagedEquipment_findUnique_def
          damaged_catch_not_200)
  from step found have stored: "damagedEquipment d1 i = Some existing"
    by (auto simp: equipments_update_increment_def split: if_splits option.splits)
  from assms valid key found step
  obtain d2 where row: "damagedEquipment_update_row i b now d1 = Inr d2"
    and result: "snd (damaged_equipments_id_PUT d i now b) = d2"
    by (cases "damagedEquipment_update_row i b now d1")
       (auto simp: damaged_equipments_id_PUT_def damagedEquipment_findUnique_def
          damaged_catch_not_200)
  from row stored have "damagedEquipment d2 i = Some (updateData b now existing)"
    by (auto simp: damagedEquipment_update_row_def split: if_splits)
  then have after:
    "damagedEquipment (snd (damaged_equipments_id_PUT d i now b)) i =
       Some (updateData b now existing)"
    by (simp add: result)
  from valid show ?thesis
    by (auto simp: after found updateData_def Let_def UpdateDamagedEquipmentSchema_success_def
          split: option.splits)
qed

theorem damaged_equipments_id_PUT_status_witness:
  "fst (damaged_equipments_id_PUT example_repaired ''dm1'' 300 (example_status ''in_progress'')) = 200 \<and>
   map_option de_repairStatus (damagedEquipment example_repaired ''dm1'') = Some completed \<and>
   map_option de_repairStatus
     (damagedEquipment (snd (damaged_equipments_id_PUT example_repaired ''dm1'' 300
        (example_status ''in_progress''))) ''dm1'') = Some in_progress"
proof -
  have accepted: "fst (damaged_equipments_id_PUT example_repaired ''dm1'' 300
                         (example_status ''in_progress'')) = 200"
    by (simp add: damaged_equipments_id_PUT_def UpdateDamagedEquipmentSchema_success_def
          damagedEquipment_findUnique_def damagedEquipment_update_row_def
          RepairStatus_enum_def example_repaired_def example_status_def
          text_ok_def int4_option_def text_option_ok_def)
  have before: "map_option de_repairStatus (damagedEquipment example_repaired ''dm1'') = Some completed"
    by (simp add: example_repaired_def)
  from damaged_equipments_id_PUT_status [OF accepted] accepted before
  show ?thesis by (simp add: example_status_def RepairStatus_enum_def)
qed




section \<open>The authentication wrapper\<close>

text \<open>
  Claim C8, as stated, fails. It lets the wrapper answer 401 only when the cookie is
  absent, the token fails verification or the verified payload lacks a user id, and has
  the handler run otherwise. The test \<open>!verified.userId\<close> also rejects a payload whose
  user id is 0: below, the cookie is present, the token verifies, the payload carries the
  user id 0, and the wrapper answers 401 without running the handler.
\<close>

theorem withAuth_rejects_userId_zero:
  "cookies (example_request (Some ''token0'')) ''jwt-access-token'' = Some ''token0'' \<and>
   map_option jp_userId (verifyToken example_jwtVerify (Some ''s3cret'') ''token0'') = Some (Some 0) \<and>
   withAuth example_jwtVerify (Some ''s3cret'') example_handler
     (example_request (Some ''token0'')) 0 = (Unauthorized, 0) \<and>
   status (fst (example_handler (example_request (Some ''token0''))
                  \<lparr>userId = 0, email = None, role = None\<rparr> 0)) = 200"
  by (simp add: withAuth_def authenticateRequest_def verifyToken_def getSecret_def
        example_jwtVerify_def example_request_def example_handler_def)

text \<open>
  Claim C8, amended: a route wrapped by \<open>withAuth\<close> answers 401 without running the
  wrapped handler when the cookie \<open>jwt-access-token\<close> is absent or empty, when its value
  fails verification (a missing secret counts as a failure), or when the verified payload
  carries no user id or the user id 0; in every other case the handler runs with the user
  id, email and role of the payload.
\<close>

theorem withAuth_guard:
  "((cookies request ''jwt-access-token'' = None \<or>
     cookies request ''jwt-access-token'' = Some [] \<or>
     (\<exists>token. cookies request ''jwt-access-token'' = Some token \<and>
        (verifyToken jwtVerify env token = None \<or>
         (\<exists>verified. verifyToken jwtVerify env token = Some verified \<and>
            (jp_userId verified = None \<or> jp_userId verified = Some 0)))))
      \<longrightarrow> withAuth jwtVerify env handler request s = (Unauthorized, s)) \<and>
   (\<forall>token verified uid.
      cookies request ''jwt-access-token'' = Some token \<and> token \<noteq> [] \<and>
      verifyToken jwtVerify env token = Some verified \<and>
      jp_userId verified = Some uid \<and> uid \<noteq> 0
      \<longrightarrow> withAuth jwtVerify env handler request s =
            handler request \<lparr>userId = uid, email = jp_email verified, role = jp_role verified\<rparr> s)"
proof (intro conjI allI impI)
  assume "cookies request ''jwt-access-token'' = None \<or>
     cookies request ''jwt-access-token'' = Some [] \<or>
     (\<exists>token. cookies request ''jwt-access-token'' = Some token \<and>
        (verifyToken jwtVerify env token = None \<or>
         (\<exists>verified. verifyToken jwtVerify env token = Some verified \<and>
            (jp_userId verified = None \<or> jp_userId verified = Some 0))))"
  then have "authenticateRequest jwtVerify env request = None"
    by (auto simp: authenticateRequest_def split: option.splits)
  then show "withAuth jwtVerify env handler request s = (Unauthorized, s)"
    by (simp add: withAuth_def)
next
  fix token verified uid
  assume "cookies request ''jwt-access-token'' = Some token \<and> token \<noteq> [] \<and>
      verifyToken jwtVerify env token = Some verified \<and>
      jp_userId verified = Some uid \<and> uid \<noteq> 0"
  then have "authenticateRequest jwtVerify env request =
               Some \<lparr>userId = uid, email = jp_email verified, role = jp_role verified\<rparr>"
    by (simp add: authenticateRequest_def)
  then show "withAuth jwtVerify env handler request s =
               handler request \<lparr>userId = uid, email = jp_email verified, role = jp_role verified\<rparr> s"
    by (simp add: withAuth_def)
qed

theorem withAuth_guard_witness:
  "withAuth example_jwtVerify (Some ''s3cret'') example_handler (example_request None) 0 =
     (Unauthorized, 0) \<and>
   withAuth example_jwtVerify (Some ''s3cret'') example_handler (example_request (Some ''forged'')) 0 =
     (Unauthorized, 0) \<and>
   withAuth example_jwtVerify None example_handler (example_request (Some ''token7'')) 0 =
     (Unauthorized, 0) \<and>
   withAuth example_jwtVerify (Some ''s3cret'') example_handler (example_request (Some ''token7'')) 0 =
     example_handler (example_request (Some ''token7''))
       \<lparr>userId = 7, email = None, role = None\<rparr> 0"
proof -
  have absent: "cookies (example_request None) ''jwt-access-token'' = None"
    by (simp add: example_request_def)
  have forged: "cookies (example_request (Some ''forged'')) ''jwt-access-token'' = Some ''forged'' \<and>
                verifyToken example_jwtVerify (Some ''s3cret'') ''forged'' = None"
    by (simp add: example_request_def verifyToken_def getSecret_def example_jwtVerify_def)
  have unset: "cookies (example_request (Some ''token7'')) ''jwt-access-token'' = Some ''token7'' \<and>
               verifyToken example_jwtVerify None ''token7'' = None"
    by (simp add: example_request_def verifyToken_def getSecret_def)
  have good: "cookies (example_request (Some ''token7'')) ''jwt-access-token'' = Some ''token7'' \<and>
              ''token7'' \<noteq> [] \<and>
              verifyToken example_jwtVerify (Some ''s3cret'') ''token7'' =
                Some \<lparr>jp_sub = ''7'', jp_email = None, jp_role = None, jp_userId = Some 7\<rparr> \<and>
              jp_userId \<lparr>jp_sub = ''7'', jp_email = None, jp_role = None, jp_userId = Some 7\<rparr> = Some 7 \<and>
              (7::int) \<noteq> 0"
    by (simp add: example_request_def verifyToken_def getSecret_def example_jwtVerify_def)
  have a: "withAuth example_jwtVerify (Some ''s3cret'') example_handler (example_request None) 0 =
     (Unauthorized, 0)"
    using withAuth_guard [of "example_request None" example_jwtVerify "Some ''s3cret''"
        example_handler 0] absent by blast
  have b: "withAuth example_jwtVerify (Some ''s3cret'') example_handler
             (example_request (Some ''forged'')) 0 = (Unauthorized, 0)"
    using withAuth_guard [of "example_request (Some ''forged'')" example_jwtVerify "Some ''s3cret''"
        example_handler 0] forged by blast
  have c: "withAuth example_jwtVerify None example_handler
             (example_request (Some ''token7'')) 0 = (Unauthorized, 0)"
    using withAuth_guard [of "example_request (Some ''token7'')" example_jwtVerify None
        example_handler 0] unset by blast
  have d: "withAuth example_jwtVerify (Some ''s3cret'') example_handler
             (example_request (Some ''token7'')) 0 =
           example_handler (example_request (Some ''token7''))
             \<lparr>userId = 7,
              email = jp_email \<lparr>jp_sub = ''7'', jp_email = None, jp_role = None, jp_userId = Some 7\<rparr>,
              role = jp_role \<lparr>jp_sub = ''7'', jp_email = None, jp_role = None, jp_userId = Some 7\<rparr>\<rparr> 0"
    using withAuth_guard [of "example_request (Some ''token7'')" example_jwtVerify "Some ''s3cret''"
        example_handler 0] good by blast
  from a b c d show ?thesis by simp
qed

end
